theory Spec2Isabelle
  imports Main
begin

section \<open>Python values\<close>

text \<open>
  The script \<^verbatim>\<open>get_iss_position.py\<close> handles the values that \<^verbatim>\<open>json.loads\<close> produces
  and that \<^verbatim>\<open>json.dumps\<close> and \<^verbatim>\<open>print\<close> consume.  A Python \<^verbatim>\<open>float\<close> is an IEEE binary64
  value: \<open>Finite s m e\<close> stands for \<open>(-1)\<^sup>s * m * 2\<^sup>e\<close> with the significand \<open>m\<close> below
  \<open>2\<^sup>5\<^sup>3\<close>; the other two constructors are the infinities and not-a-number, which
  \<^verbatim>\<open>json.loads\<close> produces for \<^verbatim>\<open>Infinity\<close>, \<^verbatim>\<open>-Infinity\<close>, \<^verbatim>\<open>NaN\<close> and for a literal
  such as \<^verbatim>\<open>1e999\<close>.
\<close>

datatype pyfloat =
    Finite bool nat int
  | Infinite bool
  | NaN

definition is_double :: "pyfloat \<Rightarrow> bool" where
  "is_double x =
     (case x of
        Finite s m e \<Rightarrow>
          m < 2 ^ 53 \<and> - 1074 \<le> e \<and> e \<le> 971 \<and> (m < 2 ^ 52 \<longrightarrow> e = - 1074)
      | _ \<Rightarrow> True)"

fun isfinite :: "pyfloat \<Rightarrow> bool" where
  "isfinite (Finite s m e) = True"
| "isfinite (Infinite s) = False"
| "isfinite NaN = False"

text \<open>
  Strings are lists of characters; a character stands for the code point of the same
  number, so the strings of the model are the Python strings over code points below 256.
  A \<^verbatim>\<open>dict\<close> keeps its insertion order, which \<^verbatim>\<open>json.dumps\<close> shows: it is an association
  list, read with \<open>map_of\<close>.
\<close>

datatype pyval =
    PNone
  | PBool bool
  | PInt int
  | PFloat pyfloat
  | PStr string
  | PList "pyval list"
  | PDict "(string \<times> pyval) list"

type_synonym pydict = "(string \<times> pyval) list"

text \<open>\<^verbatim>\<open>d.get(k)\<close> and \<^verbatim>\<open>d.get(k, default)\<close>: the value, or the default (\<^verbatim>\<open>None\<close>).\<close>

definition dict_get_default :: "pydict \<Rightarrow> string \<Rightarrow> pyval \<Rightarrow> pyval" where
  "dict_get_default d k dflt = (case map_of d k of None \<Rightarrow> dflt | Some v \<Rightarrow> v)"

definition dict_get :: "pydict \<Rightarrow> string \<Rightarrow> pyval" where
  "dict_get d k = dict_get_default d k PNone"

fun type_name :: "pyval \<Rightarrow> string" where
  "type_name PNone = ''NoneType''"
| "type_name (PBool b) = ''bool''"
| "type_name (PInt n) = ''int''"
| "type_name (PFloat x) = ''float''"
| "type_name (PStr s) = ''str''"
| "type_name (PList xs) = ''list''"
| "type_name (PDict d) = ''dict''"

section \<open>Exceptions\<close>

text \<open>
  The exception classes that can reach the two \<^verbatim>\<open>except\<close> clauses of the script, each
  with its chain of base classes.  \<^verbatim>\<open>IssApiError\<close> is the script's own class, derived
  from \<^verbatim>\<open>RuntimeError\<close>; \<^verbatim>\<open>urllib.error.URLError\<close> derives from \<^verbatim>\<open>OSError\<close>, as do the socket
  errors; the errors of \<^verbatim>\<open>http.client\<close> derive from \<^verbatim>\<open>HTTPException\<close>, and
  \<^verbatim>\<open>RemoteDisconnected\<close> from \<^verbatim>\<open>ConnectionResetError\<close> as well; \<^verbatim>\<open>json.JSONDecodeError\<close> and
  \<^verbatim>\<open>UnicodeDecodeError\<close> derive from \<^verbatim>\<open>ValueError\<close>.
\<close>

datatype exc_class =
    BaseException | Exception
  | OSError | URLError | HTTPError | TimeoutError
  | ConnectionError | ConnectionResetError | ConnectionRefusedError | gaierror
  | HTTPException | IncompleteRead | BadStatusLine | RemoteDisconnected
  | ValueError | JSONDecodeError | UnicodeDecodeError
  | ArithmeticError | OverflowError
  | LookupError | KeyError
  | AttributeError | TypeError
  | RuntimeError | IssApiError

fun mro :: "exc_class \<Rightarrow> exc_class list" where
  "mro BaseException = [BaseException]"
| "mro Exception = [Exception, BaseException]"
| "mro OSError = [OSError, Exception, BaseException]"
| "mro URLError = [URLError, OSError, Exception, BaseException]"
| "mro HTTPError = [HTTPError, URLError, OSError, Exception, BaseException]"
| "mro TimeoutError = [TimeoutError, OSError, Exception, BaseException]"
| "mro ConnectionError = [ConnectionError, OSError, Exception, BaseException]"
| "mro ConnectionResetError =
     [ConnectionResetError, ConnectionError, OSError, Exception, BaseException]"
| "mro ConnectionRefusedError =
     [ConnectionRefusedError, ConnectionError, OSError, Exception, BaseException]"
| "mro gaierror = [gaierror, OSError, Exception, BaseException]"
| "mro HTTPException = [HTTPException, Exception, BaseException]"
| "mro IncompleteRead = [IncompleteRead, HTTPException, Exception, BaseException]"
| "mro BadStatusLine = [BadStatusLine, HTTPException, Exception, BaseException]"
| "mro RemoteDisconnected =
     [RemoteDisconnected, ConnectionResetError, ConnectionError, OSError,
      BadStatusLine, HTTPException, Exception, BaseException]"
| "mro ValueError = [ValueError, Exception, BaseException]"
| "mro JSONDecodeError = [JSONDecodeError, ValueError, Exception, BaseException]"
| "mro UnicodeDecodeError = [UnicodeDecodeError, ValueError, Exception, BaseException]"
| "mro ArithmeticError = [ArithmeticError, Exception, BaseException]"
| "mro OverflowError = [OverflowError, ArithmeticError, Exception, BaseException]"
| "mro LookupError = [LookupError, Exception, BaseException]"
| "mro KeyError = [KeyError, LookupError, Exception, BaseException]"
| "mro AttributeError = [AttributeError, Exception, BaseException]"
| "mro TypeError = [TypeError, Exception, BaseException]"
| "mro RuntimeError = [RuntimeError, Exception, BaseException]"
| "mro IssApiError = [IssApiError, RuntimeError, Exception, BaseException]"

text \<open>An exception object: its class and \<^verbatim>\<open>str(exc)\<close>, the message it was raised with.\<close>

datatype py_exc = Exc exc_class string

fun exc_class_of :: "py_exc \<Rightarrow> exc_class" where
  "exc_class_of (Exc c m) = c"

fun exc_str :: "py_exc \<Rightarrow> string" where
  "exc_str (Exc c m) = m"

definition isinstance :: "py_exc \<Rightarrow> exc_class \<Rightarrow> bool" where
  "isinstance exc c = (c \<in> set (mro (exc_class_of exc)))"

section \<open>The coercion \<^verbatim>\<open>float(x)\<close>\<close>

text \<open>\<^verbatim>\<open>int.bit_length()\<close>.\<close>

fun bit_length :: "nat \<Rightarrow> nat" where
  "bit_length n = (if n = 0 then 0 else Suc (bit_length (n div 2)))"

declare bit_length.simps [simp del]

text \<open>
  A positive integer rounded to 53 significant bits, ties to even: the significand and
  the exponent of the result.  A carry out of the 53 bits moves to the next binade.
\<close>

definition round_to_53 :: "nat \<Rightarrow> nat \<times> int" where
  "round_to_53 a =
     (let l = bit_length a in
      if l \<le> 53 then (a * 2 ^ (53 - l), int l - 53)
      else
        let sh = l - 53;
            q = a div 2 ^ sh;
            r = a mod 2 ^ sh;
            half = 2 ^ (sh - 1);
            m = (if half < r \<or> (r = half \<and> odd q) then q + 1 else q)
        in if m = 2 ^ 53 then (2 ^ 52, int sh + 1) else (m, int sh))"

text \<open>
  \<^verbatim>\<open>float(n)\<close> for an \<^verbatim>\<open>int\<close>: the nearest double, and \<^verbatim>\<open>OverflowError\<close> when the rounded
  value is beyond the largest double.
\<close>

definition float_of_int :: "int \<Rightarrow> py_exc + pyfloat" where
  "float_of_int n =
     (if n = 0 then Inr (Finite False 0 (- 1074))
      else
        case round_to_53 (nat \<bar>n\<bar>) of
          (m, e) \<Rightarrow>
            if 971 < e then Inl (Exc OverflowError ''int too large to convert to float'')
            else Inr (Finite (n < 0) m e))"

text \<open>
  \<^verbatim>\<open>isinstance(v, (int, float))\<close>.  \<^verbatim>\<open>bool\<close> is a subclass of \<^verbatim>\<open>int\<close> in Python, so the
  test holds for \<^verbatim>\<open>True\<close> and \<^verbatim>\<open>False\<close>.
\<close>

fun isinstance_int_float :: "pyval \<Rightarrow> bool" where
  "isinstance_int_float (PInt n) = True"
| "isinstance_int_float (PBool b) = True"
| "isinstance_int_float (PFloat x) = True"
| "isinstance_int_float v = False"

text \<open>
  \<^verbatim>\<open>float(v)\<close> on the values that pass the test above: a float is returned as it is, an
  \<^verbatim>\<open>int\<close> is rounded, \<^verbatim>\<open>True\<close> and \<^verbatim>\<open>False\<close> are the integers 1 and 0.  On \<^verbatim>\<open>None\<close>, a
  list or a dict \<^verbatim>\<open>float\<close> raises \<^verbatim>\<open>TypeError\<close>; on a \<^verbatim>\<open>str\<close> it parses the text, which
  the script never asks for (the \<^verbatim>\<open>isinstance\<close> guard comes first) and which is left
  out here.
\<close>

fun py_float :: "pyval \<Rightarrow> py_exc + pyfloat" where
  "py_float (PFloat x) = Inr x"
| "py_float (PInt n) = float_of_int n"
| "py_float (PBool b) = float_of_int (if b then 1 else 0)"
| "py_float v =
     Inl (Exc TypeError
       (''float() argument must be a string or a real number, not '' @ type_name v))"

section \<open>\<^verbatim>\<open>fetch_current_position\<close>\<close>

definition API_URL :: string where
  "API_URL = ''https://api.wheretheiss.at/v1/satellites/25544''"

definition DEFAULT_REQUEST_TIMEOUT :: int where
  "DEFAULT_REQUEST_TIMEOUT = 15"

definition REQUEST_FAILURE_MESSAGE :: string where
  "REQUEST_FAILURE_MESSAGE = ''Failed to retrieve ISS position.''"

definition INVALID_COORDS_MESSAGE :: string where
  "INVALID_COORDS_MESSAGE = ''ISS API returned invalid latitude/longitude values''"

record IssPosition =
  latitude :: pyfloat
  longitude :: pyfloat

text \<open>
  The world outside the script: for a URL and a timeout, what the body of the \<^verbatim>\<open>try\<close>
  statement, \<^verbatim>\<open>json.loads(urlopen(url, timeout).read())\<close>, comes to.  Either one of its
  three calls raises (\<^verbatim>\<open>urlopen\<close> and \<^verbatim>\<open>read\<close> on a transport failure, \<^verbatim>\<open>json.loads\<close> on a
  body that is not JSON), or the parsed value is bound to \<^verbatim>\<open>payload\<close>.
\<close>

type_synonym http_env = "string \<Rightarrow> int \<Rightarrow> py_exc + pyval"

text \<open>
  The failures of the transport layer, by the moment at which they strike, and the
  class of the exception that each one is for the script.  \<^verbatim>\<open>urlopen\<close> wraps every
  \<^verbatim>\<open>OSError\<close> of the connection and of the sending of the request in a \<^verbatim>\<open>URLError\<close>; while
  it waits for the response, and while \<^verbatim>\<open>read\<close> takes the body, the errors of the socket
  and of \<^verbatim>\<open>http.client\<close> come as they are.  A body that ends before its announced length
  is an \<^verbatim>\<open>http.client.IncompleteRead\<close>.
\<close>

datatype transport_failure =
    Dns_failure
  | Network_unreachable
  | Connection_refused
  | Timeout_connecting
  | Reset_awaiting_response
  | Closed_awaiting_response
  | Timeout_awaiting_response
  | Reset_in_body
  | Timeout_in_body
  | Closed_in_body

fun raised_class :: "transport_failure \<Rightarrow> exc_class" where
  "raised_class Dns_failure = URLError"
| "raised_class Network_unreachable = URLError"
| "raised_class Connection_refused = URLError"
| "raised_class Timeout_connecting = URLError"
| "raised_class Reset_awaiting_response = ConnectionResetError"
| "raised_class Closed_awaiting_response = RemoteDisconnected"
| "raised_class Timeout_awaiting_response = TimeoutError"
| "raised_class Reset_in_body = ConnectionResetError"
| "raised_class Timeout_in_body = TimeoutError"
| "raised_class Closed_in_body = IncompleteRead"

text \<open>
  Lines 37 to 44, on the parsed payload.  A payload that is not a JSON object has no
  \<^verbatim>\<open>get\<close> method.
\<close>

definition position_of_payload :: "pyval \<Rightarrow> py_exc + IssPosition" where
  "position_of_payload payload =
     (case payload of
        PDict d \<Rightarrow>
          (let lat = dict_get d ''latitude'';
               lon = dict_get d ''longitude''
           in if \<not> isinstance_int_float lat \<or> \<not> isinstance_int_float lon
              then Inl (Exc IssApiError INVALID_COORDS_MESSAGE)
              else
                (case py_float lat of
                   Inl exc \<Rightarrow> Inl exc
                 | Inr la \<Rightarrow>
                     (case py_float lon of
                        Inl exc \<Rightarrow> Inl exc
                      | Inr lo \<Rightarrow> Inr \<lparr>latitude = la, longitude = lo\<rparr>)))
      | _ \<Rightarrow>
          Inl (Exc AttributeError
            ([CHR 0x27] @ type_name payload @ [CHR 0x27]
               @ '' object has no attribute '' @ [CHR 0x27] @ ''get'' @ [CHR 0x27])))"

definition fetch_current_position :: "http_env \<Rightarrow> int \<Rightarrow> py_exc + IssPosition" where
  "fetch_current_position env timeout =
     (case env API_URL timeout of
        Inl exc \<Rightarrow>
          if isinstance exc URLError \<or> isinstance exc OSError
          then Inl (Exc IssApiError REQUEST_FAILURE_MESSAGE)
          else Inl exc
      | Inr payload \<Rightarrow> position_of_payload payload)"

section \<open>Text of numbers\<close>

text \<open>The decimal digits of a natural number, as \<^verbatim>\<open>str(n)\<close> writes them.\<close>

fun dec_nat :: "nat \<Rightarrow> string" where
  "dec_nat n =
     (if n < 10 then [''0123456789'' ! n]
      else dec_nat (n div 10) @ [''0123456789'' ! (n mod 10)])"

declare dec_nat.simps [simp del]

definition dec_int :: "int \<Rightarrow> string" where
  "dec_int n = (if n < 0 then ''-'' @ dec_nat (nat (- n)) else dec_nat (nat n))"

text \<open>
  \<^verbatim>\<open>str(n)\<close> and \<^verbatim>\<open>repr(n)\<close> of an \<^verbatim>\<open>int\<close>.  The interpreter refuses to write a number of
  more than 4300 digits, the limit it has unless it is started with another one, and
  raises \<^verbatim>\<open>ValueError\<close>; the sign is not counted.
\<close>

definition MAX_STR_DIGITS :: nat where
  "MAX_STR_DIGITS = 4300"

definition int_text :: "int \<Rightarrow> py_exc + string" where
  "int_text n =
     (if 10 ^ MAX_STR_DIGITS \<le> \<bar>n\<bar>
      then Inl (Exc ValueError ''Exceeds the limit (4300 digits) for integer string conversion'')
      else Inr (dec_int n))"

text \<open>
  \<^verbatim>\<open>repr\<close> of a float is the shortest decimal that reads back as the same double, and
  the closest to it among those of that length.  \<open>reads_as c k m e\<close>: the decimal
  \<open>c * 10\<^sup>k\<close> lies in the interval of the reals that round to the double \<open>m * 2\<^sup>e\<close>.
  In units of a quarter of \<open>2\<^sup>e\<close> the double is \<open>4 * m\<close>, half-way to the next double
  is \<open>4 * m + 2\<close>, half-way to the one before is \<open>4 * m - 2\<close>, or \<open>4 * m - 1\<close> at the
  bottom of a binade, where the doubles below are twice as dense.  The ends of the
  interval round to the double when its significand is even.
\<close>

definition lower_gap :: "nat \<Rightarrow> int \<Rightarrow> int" where
  "lower_gap m e = (if m = 2 ^ 52 \<and> - 1074 < e then 1 else 2)"

definition decimal_num :: "int \<Rightarrow> int \<Rightarrow> int" where
  "decimal_num k e = 10 ^ nat k * 2 ^ nat (2 - e)"

definition decimal_den :: "int \<Rightarrow> int \<Rightarrow> int" where
  "decimal_den k e = 10 ^ nat (- k) * 2 ^ nat (e - 2)"

definition reads_as :: "int \<Rightarrow> int \<Rightarrow> nat \<Rightarrow> int \<Rightarrow> bool" where
  "reads_as c k m e =
     (let v = c * decimal_num k e;
          lo = (4 * int m - lower_gap m e) * decimal_den k e;
          hi = (4 * int m + 2) * decimal_den k e
      in if even m then lo \<le> v \<and> v \<le> hi else lo < v \<and> v < hi)"

text \<open>
  The multiple of \<open>10\<^sup>k\<close> that reads back as the double and is closest to it, if there
  is one: it is the multiple just below the double or the one just above, and the even
  one of the two when the double is half-way between them.
\<close>

definition candidate :: "nat \<Rightarrow> int \<Rightarrow> int \<Rightarrow> int option" where
  "candidate m e k =
     (let x = 4 * int m * decimal_den k e;
          c0 = x div decimal_num k e;
          c1 = c0 + 1;
          ok0 = reads_as c0 k m e;
          ok1 = reads_as c1 k m e
      in if ok0 \<and> ok1
         then Some (if x - c0 * decimal_num k e < c1 * decimal_num k e - x then c0
                    else if c1 * decimal_num k e - x < x - c0 * decimal_num k e then c1
                    else if even c0 then c0
                    else c1)
         else if ok0 then Some c0
         else if ok1 then Some c1
         else None)"

text \<open>
  The fewest digits are those of the largest \<open>k\<close> with a candidate.  The search goes
  down from a power of ten above the double; at \<open>k = min e 0\<close> the double itself is a
  multiple of \<open>10\<^sup>k\<close>, which the first equation writes out.
\<close>

fun shortest_from :: "nat \<Rightarrow> nat \<Rightarrow> int \<Rightarrow> int \<Rightarrow> int \<times> int" where
  "shortest_from 0 m e k = (int m * 2 ^ nat e * 5 ^ nat (- e), min e 0)"
| "shortest_from (Suc fuel) m e k =
     (case candidate m e k of
        Some c \<Rightarrow> (c, k)
      | None \<Rightarrow> shortest_from fuel m e (k - 1))"

definition shortest_decimal :: "nat \<Rightarrow> int \<Rightarrow> int \<times> int" where
  "shortest_decimal m e =
     (let k0 = max 0 (int (bit_length m) + e) + 1
      in shortest_from (nat (k0 - min e 0)) m e k0)"

text \<open>
  The layout of \<^verbatim>\<open>repr\<close>: \<open>ds\<close> are the digits and the decimal point comes after the
  first \<open>decpt\<close> of them.  Exponent notation is used from \<open>1e16\<close> up and below \<open>1e-4\<close>;
  otherwise the digits are padded with zeros, and \<^verbatim>\<open>.0\<close> is added to a whole number.
\<close>

definition exponent_text :: "int \<Rightarrow> string" where
  "exponent_text x =
     (if x < 0 then ''-'' else ''+'') @ (if \<bar>x\<bar> < 10 then ''0'' else [])
       @ dec_nat (nat \<bar>x\<bar>)"

definition layout_repr :: "string \<Rightarrow> int \<Rightarrow> string" where
  "layout_repr ds decpt =
     (if decpt \<le> - 4 \<or> 16 < decpt then
        (case ds of
           [] \<Rightarrow> []
         | d # rest \<Rightarrow> d # (if rest = [] then [] else CHR ''.'' # rest))
        @ ''e'' @ exponent_text (decpt - 1)
      else if decpt \<le> 0 then ''0.'' @ replicate (nat (- decpt)) (CHR ''0'') @ ds
      else if int (length ds) \<le> decpt
        then ds @ replicate (nat (decpt - int (length ds))) (CHR ''0'') @ ''.0''
      else take (nat decpt) ds @ ''.'' @ drop (nat decpt) ds)"

fun float_repr :: "pyfloat \<Rightarrow> string" where
  "float_repr (Finite s m e) =
     (if s then ''-'' else []) @
     (if m = 0 then ''0.0''
      else
        case shortest_decimal m e of
          (c, k) \<Rightarrow> (let ds = dec_nat (nat c) in layout_repr ds (int (length ds) + k)))"
| "float_repr (Infinite s) = (if s then ''-inf'' else ''inf'')"
| "float_repr NaN = ''nan''"

section \<open>\<^verbatim>\<open>str\<close>, \<^verbatim>\<open>repr\<close> and \<^verbatim>\<open>json.dumps\<close>\<close>

definition backslash :: char where
  "backslash = CHR 0x5C"

definition apostrophe :: char where
  "apostrophe = CHR 0x27"

definition double_quote :: char where
  "double_quote = CHR 0x22"

definition newline :: char where
  "newline = CHR 0x0A"

definition hex2 :: "nat \<Rightarrow> string" where
  "hex2 n = [''0123456789abcdef'' ! (n div 16 mod 16), ''0123456789abcdef'' ! (n mod 16)]"

fun join :: "string \<Rightarrow> string list \<Rightarrow> string" where
  "join sep [] = []"
| "join sep [x] = x"
| "join sep (x # y # zs) = x @ sep @ join sep (y # zs)"

text \<open>
  \<^verbatim>\<open>repr\<close> of a \<^verbatim>\<open>str\<close>: in apostrophes, or in double quotes when the text has an
  apostrophe and no double quote; the quote in use and the backslash are escaped, and
  so is every character that is not printable.
\<close>

definition repr_char :: "char \<Rightarrow> char \<Rightarrow> string" where
  "repr_char quote c =
     (let n = (of_char c :: nat) in
      if c = quote \<or> c = backslash then [backslash, c]
      else if c = CHR 0x09 then [backslash, CHR ''t'']
      else if c = CHR 0x0A then [backslash, CHR ''n'']
      else if c = CHR 0x0D then [backslash, CHR ''r'']
      else if n < 32 \<or> n = 127 then [backslash, CHR ''x''] @ hex2 n
      else if n < 127 then [c]
      else if n \<le> 160 \<or> n = 173 then [backslash, CHR ''x''] @ hex2 n
      else [c])"

definition str_repr :: "string \<Rightarrow> string" where
  "str_repr s =
     (let quote = (if apostrophe \<in> set s \<and> double_quote \<notin> set s
                   then double_quote else apostrophe)
      in [quote] @ concat (map (repr_char quote) s) @ [quote])"

text \<open>
  The texts of the items of a list or dict, in order; the first item whose text cannot
  be written raises.
\<close>

fun all_texts :: "(py_exc + string) list \<Rightarrow> py_exc + string list" where
  "all_texts [] = Inr []"
| "all_texts (Inl exc # rs) = Inl exc"
| "all_texts (Inr s # rs) =
     (case all_texts rs of Inl exc \<Rightarrow> Inl exc | Inr ss \<Rightarrow> Inr (s # ss))"

text \<open>
  \<^verbatim>\<open>repr(v)\<close>.  It raises where the text of an integer inside \<open>v\<close> does.  The nesting of
  lists and dicts is taken to be within the recursion limit of the interpreter.
\<close>

fun py_repr :: "pyval \<Rightarrow> py_exc + string" where
  "py_repr PNone = Inr ''None''"
| "py_repr (PBool b) = Inr (if b then ''True'' else ''False'')"
| "py_repr (PInt n) = int_text n"
| "py_repr (PFloat x) = Inr (float_repr x)"
| "py_repr (PStr s) = Inr (str_repr s)"
| "py_repr (PList xs) =
     (case all_texts (map py_repr xs) of
        Inl exc \<Rightarrow> Inl exc
      | Inr ss \<Rightarrow> Inr (''['' @ join '', '' ss @ '']''))"
| "py_repr (PDict d) =
     (case all_texts (map (\<lambda>(k, v). map_sum id (\<lambda>s. str_repr k @ '': '' @ s) (py_repr v)) d) of
        Inl exc \<Rightarrow> Inl exc
      | Inr ss \<Rightarrow> Inr (''{'' @ join '', '' ss @ ''}''))"

text \<open>\<^verbatim>\<open>str(v)\<close>, which \<^verbatim>\<open>print\<close> and an f-string field without format use.\<close>

fun py_str :: "pyval \<Rightarrow> py_exc + string" where
  "py_str (PStr s) = Inr s"
| "py_str v = py_repr v"

text \<open>
  \<^verbatim>\<open>json.dumps(v, ensure_ascii=True)\<close> with the separators it has by default, \<^verbatim>\<open>", "\<close>
  between items and \<^verbatim>\<open>": "\<close> after a key.  Inside a string the double quote, the
  backslash and the control characters are escaped, and so is each character outside
  the printable ASCII range, as \<^verbatim>\<open>\uXXXX\<close>.  An integer is written as \<^verbatim>\<open>repr\<close> writes it,
  and raises where \<^verbatim>\<open>repr\<close> does.
\<close>

definition json_char :: "char \<Rightarrow> string" where
  "json_char c =
     (let n = (of_char c :: nat) in
      if c = double_quote then [backslash, double_quote]
      else if c = backslash then [backslash, backslash]
      else if c = CHR 0x0A then [backslash, CHR ''n'']
      else if c = CHR 0x0D then [backslash, CHR ''r'']
      else if c = CHR 0x09 then [backslash, CHR ''t'']
      else if c = CHR 0x08 then [backslash, CHR ''b'']
      else if c = CHR 0x0C then [backslash, CHR ''f'']
      else if n < 32 \<or> 126 < n then [backslash, CHR ''u'', CHR ''0'', CHR ''0''] @ hex2 n
      else [c])"

definition json_string :: "string \<Rightarrow> string" where
  "json_string s = [double_quote] @ concat (map json_char s) @ [double_quote]"

fun json_float :: "pyfloat \<Rightarrow> string" where
  "json_float NaN = ''NaN''"
| "json_float (Infinite s) = (if s then ''-Infinity'' else ''Infinity'')"
| "json_float x = float_repr x"

fun json_dumps :: "pyval \<Rightarrow> py_exc + string" where
  "json_dumps PNone = Inr ''null''"
| "json_dumps (PBool b) = Inr (if b then ''true'' else ''false'')"
| "json_dumps (PInt n) = int_text n"
| "json_dumps (PFloat x) = Inr (json_float x)"
| "json_dumps (PStr s) = Inr (json_string s)"
| "json_dumps (PList xs) =
     (case all_texts (map json_dumps xs) of
        Inl exc \<Rightarrow> Inl exc
      | Inr ss \<Rightarrow> Inr (''['' @ join '', '' ss @ '']''))"
| "json_dumps (PDict d) =
     (case all_texts
             (map (\<lambda>(k, v). map_sum id (\<lambda>s. json_string k @ '': '' @ s) (json_dumps v)) d) of
        Inl exc \<Rightarrow> Inl exc
      | Inr ss \<Rightarrow> Inr (''{'' @ join '', '' ss @ ''}''))"

section \<open>The two payloads and \<^verbatim>\<open>_emit\<close>\<close>

text \<open>
  The two fields of the f-string in \<^verbatim>\<open>_success_response\<close> are floats, and \<^verbatim>\<open>str\<close> of a
  float is its \<^verbatim>\<open>repr\<close>.
\<close>

definition success_response :: "IssPosition \<Rightarrow> pydict" where
  "success_response position =
     (let lat = latitude position;
          lon = longitude position
      in [(''status'', PStr ''success''),
          (''latitude'', PFloat lat),
          (''longitude'', PFloat lon),
          (''message'',
             PStr (''The ISS is currently at latitude '' @ float_repr lat
                     @ '' and longitude '' @ float_repr lon @ ''.''))])"

definition error_response :: "string \<Rightarrow> pydict" where
  "error_response message = [(''status'', PStr ''error''), (''message'', PStr message)]"

text \<open>
  The two streams of the process, as the text that the script has handed to each so
  far.  \<^verbatim>\<open>print(s)\<close> hands \<open>s\<close> and a newline to standard output,
  \<^verbatim>\<open>print(s, file=sys.stderr)\<close> to standard error.  Whether the stream can pass the text
  on to its device is the matter of the process: see \<open>run\<close> below.
\<close>

record io =
  stdout :: string
  stderr :: string

definition print_stdout :: "string \<Rightarrow> io \<Rightarrow> io" where
  "print_stdout s w = w\<lparr>stdout := stdout w @ s @ [newline]\<rparr>"

definition print_stderr :: "string \<Rightarrow> io \<Rightarrow> io" where
  "print_stderr s w = w\<lparr>stderr := stderr w @ s @ [newline]\<rparr>"

text \<open>
  \<^verbatim>\<open>_emit\<close>.  The subscript \<^verbatim>\<open>payload["message"]\<close> raises \<^verbatim>\<open>KeyError\<close> on a missing key;
  \<^verbatim>\<open>payload.get\<close> does not.  The text is made before \<^verbatim>\<open>print\<close> writes: when
  \<^verbatim>\<open>json.dumps\<close>, \<^verbatim>\<open>str\<close> or the f-string raises, nothing is printed.
\<close>

definition emit :: "pydict \<Rightarrow> string \<Rightarrow> io \<Rightarrow> py_exc + io" where
  "emit payload output_format w =
     (if output_format = ''json'' then
        (case json_dumps (PDict payload) of
           Inl exc \<Rightarrow> Inl exc
         | Inr s \<Rightarrow> Inr (print_stdout s w))
      else
        let status = dict_get payload ''status'' in
        if status = PStr ''success'' then
          (case map_of payload ''message'' of
             None \<Rightarrow> Inl (Exc KeyError (str_repr ''message''))
           | Some message \<Rightarrow>
               (case py_str message of
                  Inl exc \<Rightarrow> Inl exc
                | Inr s \<Rightarrow> Inr (print_stdout s w)))
        else
          (case py_str (dict_get_default payload ''message'' (PStr ''Unknown error'')) of
             Inl exc \<Rightarrow> Inl exc
           | Inr s \<Rightarrow> Inr (print_stderr (''Error: '' @ s) w)))"

section \<open>The command line\<close>

text \<open>
  \<^verbatim>\<open>int(s)\<close> on a string, which \<^verbatim>\<open>type=int\<close> applies to the argument of \<^verbatim>\<open>--timeout\<close>:
  white space around the number is dropped, a sign may come first, and the digits may
  be grouped with single underscores.  More than 4300 digits are refused, as in
  \<^verbatim>\<open>str\<close>; the underscores and the sign are not counted.
\<close>

definition is_space :: "char \<Rightarrow> bool" where
  "is_space c =
     (let n = (of_char c :: nat)
      in (9 \<le> n \<and> n \<le> 13) \<or> n = 32 \<or> n = 133 \<or> n = 160)"

definition is_digit :: "char \<Rightarrow> bool" where
  "is_digit c = (let n = (of_char c :: nat) in 48 \<le> n \<and> n \<le> 57)"

definition strip :: "string \<Rightarrow> string" where
  "strip s = rev (dropWhile is_space (rev (dropWhile is_space s)))"

fun int_digits :: "nat \<Rightarrow> bool \<Rightarrow> string \<Rightarrow> nat option" where
  "int_digits acc after_digit [] = (if after_digit then Some acc else None)"
| "int_digits acc after_digit (c # cs) =
     (if is_digit c then int_digits (10 * acc + (of_char c - 48)) True cs
      else if c = CHR ''_'' \<and> after_digit then int_digits acc False cs
      else None)"

definition py_int :: "string \<Rightarrow> int option" where
  "py_int s =
     (if MAX_STR_DIGITS < length (filter is_digit s) then None
      else
        case strip s of
          [] \<Rightarrow> None
        | c # cs \<Rightarrow>
            if c = CHR ''-'' then map_option (\<lambda>n. - int n) (int_digits 0 False cs)
            else if c = CHR ''+'' then map_option int (int_digits 0 False cs)
            else map_option int (int_digits 0 False (c # cs)))"

text \<open>
  The command line as \<^verbatim>\<open>argparse\<close> reads it, one item for each option it meets with the
  argument that follows it, if there is one, and one for each argument that belongs to
  no option: \<^verbatim>\<open>--format xml -h extra\<close> is
  \<open>[Format_opt (Some ''xml''), Help_opt, Stray ''extra'']\<close>.
\<close>

datatype cli_item =
    Help_opt
  | Format_opt "string option"
  | Timeout_opt "string option"
  | Stray string

record Namespace =
  format :: string
  timeout :: int

text \<open>
  \<^verbatim>\<open>parser.parse_args()\<close> for the parser that \<^verbatim>\<open>_parse_args\<close> builds: the value or
  \<^verbatim>\<open>SystemExit\<close> with a status.  \<^verbatim>\<open>-h\<close> prints the help and exits with 0 where it stands.
  An option without its argument, a format outside \<^verbatim>\<open>choices\<close> and a timeout that
  \<^verbatim>\<open>int\<close> rejects are errors where they stand, and an argument that belongs to no option
  is one at the end: \<^verbatim>\<open>parser.error\<close> exits with 2.
\<close>

fun parse_items :: "cli_item list \<Rightarrow> Namespace \<Rightarrow> bool \<Rightarrow> int + Namespace" where
  "parse_items [] ns stray = (if stray then Inl 2 else Inr ns)"
| "parse_items (Help_opt # rest) ns stray = Inl 0"
| "parse_items (Format_opt None # rest) ns stray = Inl 2"
| "parse_items (Format_opt (Some v) # rest) ns stray =
     (if v \<in> set [''text'', ''json''] then parse_items rest (ns\<lparr>format := v\<rparr>) stray
      else Inl 2)"
| "parse_items (Timeout_opt None # rest) ns stray = Inl 2"
| "parse_items (Timeout_opt (Some v) # rest) ns stray =
     (case py_int v of
        None \<Rightarrow> Inl 2
      | Some n \<Rightarrow> parse_items rest (ns\<lparr>timeout := n\<rparr>) stray)"
| "parse_items (Stray s # rest) ns stray = parse_items rest ns True"

definition parse_args :: "cli_item list \<Rightarrow> int + Namespace" where
  "parse_args argv =
     parse_items argv \<lparr>format = ''json'', timeout = DEFAULT_REQUEST_TIMEOUT\<rparr> False"

section \<open>\<^verbatim>\<open>main\<close> and the exit status\<close>

text \<open>
  How a call of \<^verbatim>\<open>main\<close> ends: it returns a number, an exception leaves it, or
  \<^verbatim>\<open>SystemExit\<close> leaves it.  The last line of the script raises \<^verbatim>\<open>SystemExit\<close> with the
  number returned; an exception that nothing catches ends the process with status 1.
\<close>

datatype outcome =
    Returned int
  | Uncaught py_exc
  | Exited int

fun exit_status :: "outcome \<Rightarrow> int" where
  "exit_status (Returned n) = n"
| "exit_status (Uncaught exc) = 1"
| "exit_status (Exited n) = n"

text \<open>
  Lines 95 to 103 of \<^verbatim>\<open>main\<close>, on what \<^verbatim>\<open>fetch_current_position\<close> came to: the \<^verbatim>\<open>except\<close>
  clause takes an \<^verbatim>\<open>IssApiError\<close> and lets any other exception pass.
\<close>

definition report :: "py_exc + IssPosition \<Rightarrow> string \<Rightarrow> io \<Rightarrow> outcome \<times> io" where
  "report fetched output_format w =
     (case fetched of
        Inl exc \<Rightarrow>
          if isinstance exc IssApiError then
            (case emit (error_response (exc_str exc)) output_format w of
               Inl exc' \<Rightarrow> (Uncaught exc', w)
             | Inr w' \<Rightarrow> (Returned 1, w'))
          else (Uncaught exc, w)
      | Inr position \<Rightarrow>
          (case emit (success_response position) output_format w of
             Inl exc' \<Rightarrow> (Uncaught exc', w)
           | Inr w' \<Rightarrow> (Returned 0, w')))"

definition main :: "cli_item list \<Rightarrow> http_env \<Rightarrow> io \<Rightarrow> outcome \<times> io" where
  "main argv env w =
     (case parse_args argv of
        Inl status \<Rightarrow> (Exited status, w)
      | Inr args \<Rightarrow> report (fetch_current_position env (timeout args)) (format args) w)"

text \<open>
  The process.  What its streams do with the text is given from outside: a stream that
  writes each line through to a device that refuses it makes \<^verbatim>\<open>print\<close> raise, and the
  \<^verbatim>\<open>OSError\<close> leaves \<^verbatim>\<open>main\<close>, which calls \<^verbatim>\<open>_emit\<close> outside of its \<^verbatim>\<open>try\<close> block and inside
  the handler of \<^verbatim>\<open>IssApiError\<close>; a stream that keeps the text in its buffer (standard
  output, when it is no terminal) is flushed when the interpreter ends, and when that
  fails the exit status is 120, whatever it was to be.  \<^verbatim>\<open>argparse\<close> passes over an
  \<^verbatim>\<open>OSError\<close> of its own messages.
\<close>

record delivery =
  print_raises :: "py_exc option"
  flush_fails :: bool

definition run :: "delivery \<Rightarrow> cli_item list \<Rightarrow> http_env \<Rightarrow> io \<Rightarrow> int" where
  "run dev argv env w =
     (let ended =
            (case (fst (main argv env w), print_raises dev) of
               (Returned n, Some exc) \<Rightarrow> Uncaught exc
             | (out, _) \<Rightarrow> out)
      in if flush_fails dev then 120 else exit_status ended)"

section \<open>Worlds and inputs of the statements\<close>

text \<open>
  Two worlds: one where every request is answered with a body that parses to \<open>v\<close>, and
  one where the body of the \<^verbatim>\<open>try\<close> statement raises \<open>exc\<close>.
\<close>

definition replies :: "pyval \<Rightarrow> http_env" where
  "replies v = (\<lambda>url t. Inr v)"

definition raises :: "py_exc \<Rightarrow> http_env" where
  "raises exc = (\<lambda>url t. Inl exc)"

text \<open>Streams that pass on all that is printed.\<close>

definition delivered :: delivery where
  "delivered = \<lparr>print_raises = None, flush_fails = False\<rparr>"

text \<open>
  The items of a command line: an option with an argument that the parser takes, an
  argument that belongs to no option, and an option that the parser refuses where it
  stands (it has no argument, or one that is no choice or no integer).
\<close>

fun valid_option :: "cli_item \<Rightarrow> bool" where
  "valid_option (Format_opt (Some v)) = (v = ''text'' \<or> v = ''json'')"
| "valid_option (Timeout_opt (Some v)) = (py_int v \<noteq> None)"
| "valid_option x = False"

fun stray :: "cli_item \<Rightarrow> bool" where
  "stray (Stray s) = True"
| "stray x = False"

definition refused_option :: "cli_item \<Rightarrow> bool" where
  "refused_option x = (x \<noteq> Help_opt \<and> \<not> stray x \<and> \<not> valid_option x)"

text \<open>
  What a payload has under a key when it has no number there: nothing, \<^verbatim>\<open>null\<close>, a
  string, an array or an object.
\<close>

fun no_number :: "pyval option \<Rightarrow> bool" where
  "no_number None = True"
| "no_number (Some PNone) = True"
| "no_number (Some (PStr s)) = True"
| "no_number (Some (PList xs)) = True"
| "no_number (Some (PDict d)) = True"
| "no_number (Some v) = False"

text \<open>
  A JSON number that \<^verbatim>\<open>float\<close> can take: any float, and an integer that does not round
  to a value beyond the largest double, \<open>2\<^sup>1\<^sup>0\<^sup>2\<^sup>4 - 2\<^sup>9\<^sup>7\<^sup>1\<close>.
\<close>

fun number_in_range :: "pyval \<Rightarrow> bool" where
  "number_in_range (PFloat x) = True"
| "number_in_range (PInt n) = (\<bar>n\<bar> < 2 ^ 1024 - 2 ^ 970)"
| "number_in_range v = False"

text \<open>The doubles written \<^verbatim>\<open>51.6\<close>, \<^verbatim>\<open>-0.1\<close>, \<^verbatim>\<open>1.0\<close> and \<^verbatim>\<open>0.0\<close>.\<close>

definition d51_6 :: pyfloat where
  "d51_6 = Finite False 7262054399134925 (- 47)"

definition dm0_1 :: pyfloat where
  "dm0_1 = Finite True 7205759403792794 (- 56)"

definition d1_0 :: pyfloat where
  "d1_0 = Finite False 4503599627370496 (- 52)"

definition d0_0 :: pyfloat where
  "d0_0 = Finite False 0 (- 1074)"

section \<open>Facts about the embedding\<close>

lemma isinstance_simps [simp]:
  "isinstance (Exc c m) c' = (c' \<in> set (mro c))"
  by (simp add: isinstance_def)

lemma dict_get_simps:
  "dict_get d k = (case map_of d k of None \<Rightarrow> PNone | Some v \<Rightarrow> v)"
  by (simp add: dict_get_def dict_get_default_def)

lemma no_number_guard:
  "no_number (map_of d k) \<Longrightarrow> \<not> isinstance_int_float (dict_get d k)"
  by (cases "map_of d k" rule: no_number.cases) (simp_all add: dict_get_simps)

lemma fetch_replies [simp]:
  "env API_URL t = Inr payload \<Longrightarrow> fetch_current_position env t = position_of_payload payload"
  by (simp add: fetch_current_position_def)

text \<open>The bit length of a number bounds it on both sides.\<close>

lemma bit_length_upper: "n < 2 ^ bit_length n"
proof (induction n rule: bit_length.induct)
  case (1 n)
  show ?case
  proof (cases "n = 0")
    case True
    then show ?thesis by (simp add: bit_length.simps)
  next
    case False
    with 1 have "n div 2 < 2 ^ bit_length (n div 2)" by simp
    then have "n < 2 * 2 ^ bit_length (n div 2)" by linarith
    with False show ?thesis by (simp add: bit_length.simps [of n])
  qed
qed

lemma bit_length_lower: "0 < n \<Longrightarrow> 2 ^ (bit_length n - 1) \<le> n"
proof (induction n rule: bit_length.induct)
  case (1 n)
  show ?case
  proof (cases "n div 2 = 0")
    case True
    with 1(2) have "n = 1" by linarith
    then show ?thesis by (simp add: bit_length.simps)
  next
    case False
    with 1 have ih: "2 ^ (bit_length (n div 2) - 1) \<le> n div 2" by simp
    from False have pos: "0 < bit_length (n div 2)" by (simp add: bit_length.simps [of "n div 2"])
    from 1(2) have "bit_length n - 1 = Suc (bit_length (n div 2) - 1)"
      using pos by (simp add: bit_length.simps [of n])
    with ih show ?thesis by simp
  qed
qed

lemma round_to_53_exponent:
  assumes a: "a < 2 ^ (53 + N) - 2 ^ (N - 1)" and N: "1 \<le> N" and pos: "0 < a"
  shows "snd (round_to_53 a) \<le> int N"
proof -
  define l where "l = bit_length a"
  have up: "a < 2 ^ l" unfolding l_def by (rule bit_length_upper)
  have lo: "2 ^ (l - 1) \<le> a" unfolding l_def using pos by (rule bit_length_lower)
  from a have "a < 2 ^ (53 + N)" by linarith
  with lo have "(2::nat) ^ (l - 1) < 2 ^ (53 + N)" by linarith
  then have l_le: "l \<le> 53 + N" by simp
  show ?thesis
  proof (cases "l \<le> 53")
    case True
    then show ?thesis by (simp add: round_to_53_def Let_def l_def [symmetric])
  next
    case False
    define sh where "sh = l - 53"
    define q where "q = a div 2 ^ sh"
    define r where "r = a mod 2 ^ sh"
    from False l_le have sh: "1 \<le> sh" "sh \<le> N" "l = 53 + sh" by (simp_all add: sh_def)
    from up sh(3) have "a < 2 ^ 53 * 2 ^ sh" by (simp add: power_add)
    then have q53: "q < 2 ^ 53" unfolding q_def by (simp add: less_mult_imp_div_less)
    have aqr: "a = q * 2 ^ sh + r"
      using div_mult_mod_eq [of a "2 ^ sh"] by (simp add: q_def r_def)
    show ?thesis
    proof (cases "sh = N")
      case False
      with sh have "sh + 1 \<le> N" by simp
      with \<open>\<not> l \<le> 53\<close> show ?thesis
        by (simp add: round_to_53_def Let_def l_def [symmetric] sh_def [symmetric])
    next
      case True
      have no_carry: "\<not> (q + 1 = 2 ^ 53 \<and> (2 ^ (sh - 1) < r \<or> r = 2 ^ (sh - 1)))"
      proof
        assume c: "q + 1 = 2 ^ 53 \<and> (2 ^ (sh - 1) < r \<or> r = 2 ^ (sh - 1))"
        then have r: "2 ^ (N - 1) \<le> r" using True by auto
        from c have "q * 2 ^ sh + 2 ^ sh = 2 ^ 53 * 2 ^ sh"
          by (metis add_mult_distrib mult_1)
        then have "q * 2 ^ N + 2 ^ N = 2 ^ (53 + N)" using True by (simp add: power_add)
        moreover from N have "(2::nat) ^ N = 2 * 2 ^ (N - 1)" by (cases N) simp_all
        ultimately have "q * 2 ^ N + 2 ^ (N - 1) = 2 ^ (53 + N) - 2 ^ (N - 1)" by linarith
        moreover from aqr True have "a = q * 2 ^ N + r" by simp
        ultimately show False using r a by linarith
      qed
      have "snd (round_to_53 a) = int sh"
      proof -
        have m: "(if 2 ^ (sh - 1) < r \<or> r = 2 ^ (sh - 1) \<and> odd q then q + 1 else q) \<noteq> 2 ^ 53"
          using no_carry q53 by auto
        show ?thesis
          using \<open>\<not> l \<le> 53\<close> m
          by (auto simp add: round_to_53_def Let_def l_def [symmetric] sh_def [symmetric]
              q_def [symmetric] r_def [symmetric] split: if_splits)
      qed
      with sh show ?thesis by simp
    qed
  qed
qed

lemma float_of_int_in_range:
  assumes "\<bar>n\<bar> < 2 ^ 1024 - 2 ^ 970"
  shows "\<exists>m e. float_of_int n = Inr (Finite (n < 0) m e)"
proof (cases "n = 0")
  case True
  then show ?thesis by (simp add: float_of_int_def)
next
  case False
  then have pos: "0 < nat \<bar>n\<bar>" by simp
  have "int (nat \<bar>n\<bar>) < 2 ^ 1024 - 2 ^ 970" using assms by simp
  then have "int (nat \<bar>n\<bar>) < int (2 ^ (53 + 971) - 2 ^ (971 - 1))"
    by (simp add: of_nat_diff)
  then have "nat \<bar>n\<bar> < 2 ^ (53 + 971) - 2 ^ (971 - 1)" by (simp only: of_nat_less_iff)
  from round_to_53_exponent [OF this _ pos] have "snd (round_to_53 (nat \<bar>n\<bar>)) \<le> 971" by simp
  with False show ?thesis
    by (cases "round_to_53 (nat \<bar>n\<bar>)") (simp add: float_of_int_def)
qed

lemma round_to_53_large:
  assumes "2 ^ (53 + N) \<le> a"
  shows "int N < snd (round_to_53 a)"
proof -
  define l where "l = bit_length a"
  have "a < 2 ^ l" unfolding l_def by (rule bit_length_upper)
  with assms have "(2::nat) ^ (53 + N) < 2 ^ l" by linarith
  then have "53 + N < l" by simp
  then show ?thesis
    by (simp add: round_to_53_def Let_def l_def [symmetric])
qed

lemma float_of_int_overflow:
  assumes "2 ^ 1024 \<le> \<bar>n\<bar>"
  shows "float_of_int n = Inl (Exc OverflowError ''int too large to convert to float'')"
proof -
  have "(0::int) < 2 ^ 1024" by (rule zero_less_power) simp
  with assms have nz: "n \<noteq> 0" by linarith
  from assms have "int (2 ^ (53 + 971)) \<le> int (nat \<bar>n\<bar>)"
    by (simp del: power_numeral)
  then have "2 ^ (53 + 971) \<le> nat \<bar>n\<bar>" by (simp only: of_nat_le_iff)
  from round_to_53_large [OF this] have "971 < snd (round_to_53 (nat \<bar>n\<bar>))" by simp
  with nz show ?thesis
    by (cases "round_to_53 (nat \<bar>n\<bar>)") (simp add: float_of_int_def)
qed


text \<open>The result of \<^verbatim>\<open>float(n)\<close> is a double in normal form.\<close>

lemma round_to_53_significand:
  assumes pos: "0 < a"
  shows "2 ^ 52 \<le> fst (round_to_53 a) \<and> fst (round_to_53 a) < 2 ^ 53
         \<and> - 52 \<le> snd (round_to_53 a)"
proof -
  define l where "l = bit_length a"
  have up: "a < 2 ^ l" unfolding l_def by (rule bit_length_upper)
  have lo: "2 ^ (l - 1) \<le> a" unfolding l_def using pos by (rule bit_length_lower)
  from pos up have l_pos: "0 < l" by (cases l) simp_all
  show ?thesis
  proof (cases "l \<le> 53")
    case True
    define d where "d = 53 - l"
    from True l_pos have l: "53 = l + d" "52 = (l - 1) + d" by (simp_all add: d_def)
    have "a * 2 ^ d < 2 ^ l * 2 ^ d" using up by simp
    then have 1: "a * 2 ^ d < 2 ^ 53" by (simp only: l(1) power_add)
    have "2 ^ (l - 1) * 2 ^ d \<le> a * 2 ^ d" using lo by simp
    then have 2: "2 ^ 52 \<le> a * 2 ^ d" by (simp only: l(2) power_add)
    from True 1 2 l_pos show ?thesis
      by (simp add: round_to_53_def Let_def l_def [symmetric] d_def [symmetric])
  next
    case False
    define sh where "sh = l - 53"
    define q where "q = a div 2 ^ sh"
    define r where "r = a mod 2 ^ sh"
    from False have l: "l = 53 + sh" "l - 1 = 52 + sh" by (simp_all add: sh_def)
    from up have "a < 2 ^ 53 * 2 ^ sh" by (simp add: l(1) power_add)
    then have q_up: "q < 2 ^ 53" unfolding q_def by (simp add: less_mult_imp_div_less)
    from lo have "2 ^ (52 + sh) \<le> a" by (simp only: l(2))
    then have "2 ^ 52 * 2 ^ sh \<le> a" by (simp only: power_add)
    then have "2 ^ 52 * 2 ^ sh div 2 ^ sh \<le> a div 2 ^ sh" by (rule div_le_mono)
    then have q_lo: "2 ^ 52 \<le> q" by (simp add: q_def)
    from False q_lo q_up show ?thesis
      by (auto simp add: round_to_53_def Let_def l_def [symmetric] sh_def [symmetric]
          q_def [symmetric] r_def [symmetric])
  qed
qed

lemma float_of_int_is_double:
  assumes "float_of_int n = Inr x"
  shows "is_double x"
proof (cases "n = 0")
  case True
  with assms show ?thesis by (auto simp add: float_of_int_def is_double_def)
next
  case False
  then have "0 < nat \<bar>n\<bar>" by simp
  from round_to_53_significand [OF this] assms False show ?thesis
    by (auto simp add: float_of_int_def is_double_def split: prod.splits if_splits)
qed

lemma number_in_range_float:
  assumes "number_in_range v"
  shows "isinstance_int_float v \<and> (\<exists>x. py_float v = Inr x)"
proof (cases v)
  case (PInt n)
  with assms have "\<bar>n\<bar> < 2 ^ 1024 - 2 ^ 970"
    by (simp only: number_in_range.simps)
  from float_of_int_in_range [OF this] PInt show ?thesis
    by (simp only: isinstance_int_float.simps py_float.simps) blast
qed (use assms in simp_all)

lemma dict_get_Some: "map_of d k = Some v \<Longrightarrow> dict_get d k = v"
  by (simp add: dict_get_simps)

lemma dict_get_PFloat: "dict_get d k = PFloat x \<longleftrightarrow> map_of d k = Some (PFloat x)"
  by (simp add: dict_get_simps split: option.splits)

lemma float_of_int_finite: "float_of_int n = Inr x \<Longrightarrow> isfinite x"
  by (auto simp add: float_of_int_def split: if_splits prod.splits)

lemma py_float_finite:
  "py_float v = Inr x \<Longrightarrow> isfinite x \<longleftrightarrow> (\<forall>y. v = PFloat y \<longrightarrow> isfinite y)"
  by (cases v) (auto dest: float_of_int_finite)

lemma position_of_payload_Inr:
  assumes "position_of_payload (PDict d) = Inr position"
  shows "py_float (dict_get d ''latitude'') = Inr (latitude position)"
    and "py_float (dict_get d ''longitude'') = Inr (longitude position)"
  using assms
  by (auto simp add: position_of_payload_def Let_def split: if_splits sum.splits)

text \<open>
  The constants are doubles, and the decimals \<^verbatim>\<open>51.6\<close> and \<^verbatim>\<open>0.1\<close> round to the first
  two of them.
\<close>

lemma doubles_well_formed:
  "is_double d51_6" "is_double dm0_1" "is_double d1_0" "is_double d0_0"
  by (simp_all add: is_double_def d51_6_def dm0_1_def d1_0_def d0_0_def)

lemma decimals_read_as_doubles:
  "reads_as 516 (- 1) 7262054399134925 (- 47)"
  "reads_as 1 (- 1) 7205759403792794 (- 56)"
  by (simp_all add: reads_as_def decimal_num_def decimal_den_def lower_gap_def)

text \<open>The text of the two doubles, and of the strings that the payloads hold.\<close>

lemma shortest_from_step:
  "0 < fuel \<Longrightarrow>
   shortest_from fuel m e k
     = (case candidate m e k of Some c \<Rightarrow> (c, k) | None \<Rightarrow> shortest_from (fuel - 1) m e (k - 1))"
  by (cases fuel) (auto split: option.splits)





lemma bit_length_0_1: "bit_length 7205759403792794 = 53"
  by (simp add: bit_length.simps)

lemma shortest_0_1: "shortest_decimal 7205759403792794 (- 56) = (1, - 1)"
  by (simp add: shortest_decimal_def bit_length_0_1 shortest_from_step candidate_def
      reads_as_def decimal_num_def decimal_den_def lower_gap_def Let_def)

lemma dec_nat_1: "dec_nat (Suc 0) = ''1''"
  by (simp add: dec_nat.simps)

lemma float_repr_dm0_1: "float_repr dm0_1 = ''-0.1''"
  by (simp add: dm0_1_def shortest_0_1 dec_nat_1 layout_repr_def)

lemmas json_string_eval = json_string_def json_char_def double_quote_def backslash_def Let_def

lemma json_string_status: \<open>json_string ''status'' = ''"status"''\<close>
  by (simp add: json_string_eval)

lemma json_string_message: \<open>json_string ''message'' = ''"message"''\<close>
  by (simp add: json_string_eval)

lemma json_string_error: \<open>json_string ''error'' = ''"error"''\<close>
  by (simp add: json_string_eval)

lemma json_dumps_error_response:
  \<open>json_dumps (PDict (error_response m))
     = Inr (''{"status": "error", "message": '' @ json_string m @ ''}'')\<close>
  by (simp add: error_response_def json_string_status json_string_message json_string_error)







lemma json_dumps_success_response:
  "\<exists>s. json_dumps (PDict (success_response position)) = Inr s"
  by (simp add: success_response_def Let_def)


lemma emit_json:
  "emit payload ''json'' w
     = (case json_dumps (PDict payload) of
          Inl exc \<Rightarrow> Inl exc
        | Inr s \<Rightarrow> Inr (w\<lparr>stdout := stdout w @ s @ [newline]\<rparr>))"
  by (simp add: emit_def print_stdout_def del: json_dumps.simps split: sum.splits)

lemma emit_success_text:
  "output_format \<noteq> ''json'' \<Longrightarrow>
   emit (success_response position) output_format w
     = Inr (w\<lparr>stdout := stdout w @ ''The ISS is currently at latitude ''
              @ float_repr (latitude position) @ '' and longitude ''
              @ float_repr (longitude position) @ ''.'' @ [newline]\<rparr>)"
  by (simp add: emit_def success_response_def dict_get_simps print_stdout_def Let_def)

lemma emit_error_text:
  "output_format \<noteq> ''json'' \<Longrightarrow>
   emit (error_response m) output_format w
     = Inr (w\<lparr>stderr := stderr w @ ''Error: '' @ m @ [newline]\<rparr>)"
  by (simp add: emit_def error_response_def dict_get_simps dict_get_default_def print_stderr_def)

lemma report_success:
  "report (Inr position) output_format w
     = (case emit (success_response position) output_format w of
          Inl exc \<Rightarrow> (Uncaught exc, w) | Inr w' \<Rightarrow> (Returned 0, w'))"
  by (simp add: report_def)

lemma report_failure:
  "report (Inl (Exc IssApiError m)) output_format w
     = (case emit (error_response m) output_format w of
          Inl exc \<Rightarrow> (Uncaught exc, w) | Inr w' \<Rightarrow> (Returned 1, w'))"
  by (simp add: report_def)


text \<open>What \<^verbatim>\<open>main\<close> prints for each outcome of the fetch.\<close>

lemma report_success_total:
  "\<exists>s. report (Inr position) output_format w
          = (Returned 0, w\<lparr>stdout := stdout w @ s @ [newline]\<rparr>)"
proof (cases "output_format = ''json''")
  case True
  obtain s where "json_dumps (PDict (success_response position)) = Inr s"
    using json_dumps_success_response by blast
  then have "report (Inr position) ''json'' w
          = (Returned 0, w\<lparr>stdout := stdout w @ s @ [newline]\<rparr>)"
    by (simp add: report_success emit_json del: json_dumps.simps)
  with True show ?thesis by blast
next
  case False
  then have "report (Inr position) output_format w
          = (Returned 0,
             w\<lparr>stdout := stdout w
                  @ (''The ISS is currently at latitude '' @ float_repr (latitude position)
                       @ '' and longitude '' @ float_repr (longitude position) @ ''.'')
                  @ [newline]\<rparr>)"
    by (simp add: report_success emit_success_text)
  then show ?thesis by blast
qed

lemma report_failure_json:
  \<open>report (Inl (Exc IssApiError m)) ''json'' w
     = (Returned 1,
        w\<lparr>stdout := stdout w @ (''{"status": "error", "message": '' @ json_string m @ ''}'')
             @ [newline]\<rparr>)\<close>
  by (simp add: report_failure emit_json json_dumps_error_response del: json_dumps.simps)

lemma report_failure_text:
  "output_format \<noteq> ''json'' \<Longrightarrow>
   report (Inl (Exc IssApiError m)) output_format w
     = (Returned 1, w\<lparr>stderr := stderr w @ (''Error: '' @ m) @ [newline]\<rparr>)"
  by (simp add: report_failure emit_error_text)

lemma report_exit_status:
  "exit_status (fst (report fetched output_format w))
     = (case fetched of Inl exc \<Rightarrow> 1 | Inr position \<Rightarrow> 0)"
proof (cases fetched)
  case (Inl exc)
  obtain c m where exc: "exc = Exc c m" by (cases exc)
  show ?thesis
  proof (cases "c = IssApiError")
    case True
    with Inl exc show ?thesis
      by (cases "output_format = ''json''") (simp_all add: report_failure_json report_failure_text)
  next
    case False
    then have "\<not> isinstance exc IssApiError"
      using exc by (cases c) simp_all
    with Inl show ?thesis by (simp add: report_def)
  qed
next
  case (Inr position)
  from report_success_total [of position output_format w] Inr show ?thesis
    by auto
qed


text \<open>The only exception of \<^verbatim>\<open>str\<close> and \<^verbatim>\<open>repr\<close> is the \<^verbatim>\<open>ValueError\<close> of a long integer.\<close>

lemma all_texts_Inl: "all_texts rs = Inl exc \<Longrightarrow> Inl exc \<in> set rs"
  by (induction rs rule: all_texts.induct) (auto split: sum.splits)

lemma py_repr_raises: "py_repr v = Inl exc \<Longrightarrow> exc_class_of exc = ValueError"
proof (induction v)
  case (PInt n)
  then show ?case by (auto simp add: int_text_def split: if_splits)
next
  case (PList xs)
  from PList.prems have "all_texts (map py_repr xs) = Inl exc"
    by (auto split: sum.splits)
  then have "Inl exc \<in> set (map py_repr xs)" by (rule all_texts_Inl)
  then obtain x where "x \<in> set xs" "py_repr x = Inl exc" by auto
  then show ?case by (rule PList.IH)
next
  case (PDict d)
  from PDict.prems
  have "all_texts (map (\<lambda>(k, v). map_sum id (\<lambda>s. str_repr k @ '': '' @ s) (py_repr v)) d)
          = Inl exc"
    by (auto split: sum.splits)
  then have "Inl exc \<in> set (map (\<lambda>(k, v). map_sum id (\<lambda>s. str_repr k @ '': '' @ s) (py_repr v)) d)"
    by (rule all_texts_Inl)
  then obtain k v where kv: "(k, v) \<in> set d"
      and "map_sum id (\<lambda>s. str_repr k @ '': '' @ s) (py_repr v) = Inl exc"
    by auto
  then have "py_repr v = Inl exc" by (cases "py_repr v") simp_all
  with kv show ?case by (auto intro: PDict.IH)
qed simp_all

lemma py_str_raises:
  assumes "py_str v = Inl exc"
  shows "exc_class_of exc = ValueError"
proof -
  have "py_str v = py_repr v \<or> (\<exists>s. v = PStr s)"
    by (cases v) simp_all
  with assms have "py_repr v = Inl exc"
    by auto
  then show ?thesis
    by (rule py_repr_raises)
qed

lemma emit_error_branch:
  assumes "dict_get payload ''status'' \<noteq> PStr ''success''" and "output_format \<noteq> ''json''"
  shows "emit payload output_format w
           = (case py_str (dict_get_default payload ''message'' (PStr ''Unknown error'')) of
                Inl exc \<Rightarrow> Inl exc
              | Inr s \<Rightarrow> Inr (w\<lparr>stderr := stderr w @ ''Error: '' @ s @ [newline]\<rparr>))"
  using assms by (simp add: emit_def print_stderr_def split: sum.splits)

text \<open>The command line, item by item, and the status of a run.\<close>

lemma parse_items_prefix:
  assumes "\<forall>y\<in>set pre. valid_option y \<or> stray y"
  shows "\<exists>ns'. parse_items (pre @ rest) ns seen
                = parse_items rest ns' (seen \<or> (\<exists>y\<in>set pre. stray y))"
  using assms
proof (induction pre arbitrary: ns seen)
  case Nil
  then show ?case by auto
next
  case (Cons x pre)
  from Cons.prems have x: "valid_option x \<or> stray x"
    and pre: "\<forall>y\<in>set pre. valid_option y \<or> stray y"
    by simp_all
  show ?case
  proof (cases x)
    case Help_opt
    with x show ?thesis by simp
  next
    case (Format_opt a)
    with x obtain v where v: "a = Some v" "v = ''text'' \<or> v = ''json''"
      by (cases a) auto
    from Cons.IH [OF pre, of "ns\<lparr>format := v\<rparr>" seen] Format_opt v show ?thesis
      by auto
  next
    case (Timeout_opt a)
    with x obtain v n where v: "a = Some v" "py_int v = Some n"
      by (cases a) auto
    from Cons.IH [OF pre, of "ns\<lparr>timeout := n\<rparr>" seen] Timeout_opt v show ?thesis
      by auto
  next
    case (Stray s)
    from Cons.IH [OF pre, of ns True] Stray show ?thesis
      by auto
  qed
qed

lemma parse_items_refused:
  "refused_option x \<Longrightarrow> parse_items (x # rest) ns seen = Inl 2"
  by (cases x rule: valid_option.cases) (auto simp add: refused_option_def)

lemma parse_args_help:
  assumes "\<forall>y\<in>set pre. valid_option y \<or> stray y"
  shows "parse_args (pre @ Help_opt # rest) = Inl 0"
proof -
  from parse_items_prefix [OF assms] obtain ns' where
    "parse_items (pre @ Help_opt # rest) \<lparr>format = ''json'', timeout = DEFAULT_REQUEST_TIMEOUT\<rparr>
       False
     = parse_items (Help_opt # rest) ns' (False \<or> (\<exists>y\<in>set pre. stray y))"
    by blast
  then show ?thesis by (simp add: parse_args_def)
qed

lemma parse_args_refused:
  assumes "\<forall>y\<in>set pre. valid_option y \<or> stray y" and "refused_option x"
  shows "parse_args (pre @ x # rest) = Inl 2"
proof -
  from parse_items_prefix [OF assms(1)] obtain ns' where
    "parse_items (pre @ x # rest) \<lparr>format = ''json'', timeout = DEFAULT_REQUEST_TIMEOUT\<rparr>
       False
     = parse_items (x # rest) ns' (False \<or> (\<exists>y\<in>set pre. stray y))"
    by blast
  with parse_items_refused [OF assms(2)] show ?thesis by (simp add: parse_args_def)
qed

lemma parse_args_all_pass:
  assumes "\<forall>y\<in>set argv. valid_option y \<or> stray y"
  shows "if (\<exists>y\<in>set argv. stray y) then parse_args argv = Inl 2
         else (\<exists>args. parse_args argv = Inr args)"
proof -
  from parse_items_prefix [OF assms, of "[]"] obtain ns' where
    "parse_items (argv @ []) \<lparr>format = ''json'', timeout = DEFAULT_REQUEST_TIMEOUT\<rparr> False
     = parse_items [] ns' (False \<or> (\<exists>y\<in>set argv. stray y))"
    by blast
  then show ?thesis by (simp add: parse_args_def)
qed

lemma parse_items_status:
  "parse_items argv ns seen = Inl status \<Longrightarrow> status = 0 \<or> status = 2"
  by (induction argv ns seen rule: parse_items.induct) (auto split: if_splits option.splits)

lemma report_outcome:
  "fst (report fetched output_format w)
     = (case fetched of
          Inl exc \<Rightarrow> if isinstance exc IssApiError then Returned 1 else Uncaught exc
        | Inr position \<Rightarrow> Returned 0)"
proof (cases fetched)
  case (Inl exc)
  obtain c m where exc: "exc = Exc c m" by (cases exc)
  show ?thesis
  proof (cases "c = IssApiError")
    case True
    with Inl exc show ?thesis
      by (cases "output_format = ''json''") (simp_all add: report_failure_json report_failure_text)
  next
    case False
    then have "\<not> isinstance exc IssApiError"
      using exc by (cases c) simp_all
    with Inl show ?thesis by (simp add: report_def)
  qed
next
  case (Inr position)
  from report_success_total [of position output_format w] Inr show ?thesis
    by auto
qed

lemma run_accepted:
  assumes "parse_args argv = Inr args" and "\<not> flush_fails dev"
  shows "run dev argv env w
           = (case fetch_current_position env (timeout args) of
                Inl exc \<Rightarrow> 1
              | Inr position \<Rightarrow> (if print_raises dev = None then 0 else 1))"
  using assms
  by (cases "print_raises dev")
     (auto simp add: run_def main_def report_outcome split: sum.splits)

lemma run_ended_by_argparse:
  assumes "parse_args argv = Inl status" and "\<not> flush_fails dev"
  shows "run dev argv env w = status"
  using assms by (simp add: run_def main_def)

lemma run_statuses: "run dev argv env w \<in> {0, 1, 2, 120}"
proof (cases "flush_fails dev")
  case True
  then show ?thesis by (simp add: run_def Let_def)
next
  case False
  show ?thesis
  proof (cases "parse_args argv")
    case (Inl status)
    then have "status = 0 \<or> status = 2"
      by (auto simp add: parse_args_def dest: parse_items_status)
    with run_ended_by_argparse [OF Inl False] show ?thesis by auto
  next
    case (Inr args)
    from run_accepted [OF Inr False] show ?thesis
      by (auto split: sum.splits)
  qed
qed

section \<open>The fetch\<close>

text \<open>
  C3, as the code has it.  When the transport layer fails while the connection is made,
  while the response is awaited or while the body is read, by a DNS failure, an
  unreachable network, a refused or reset connection, a connection closed before the
  response, or a timeout, the body of the \<^verbatim>\<open>try\<close> statement raises \<^verbatim>\<open>URLError\<close> or an
  \<^verbatim>\<open>OSError\<close> of the socket, and \<^verbatim>\<open>fetch_current_position\<close> raises \<^verbatim>\<open>IssApiError\<close> with the
  message \<^verbatim>\<open>Failed to retrieve ISS position.\<close> and nothing else.  No payload is bound when
  the body raises, so none can change the result.
\<close>

theorem transport_failure_message:
  assumes "env API_URL t = Inl (Exc (raised_class failure) m)"
    and "failure \<noteq> Closed_in_body"
  shows "fetch_current_position env t = Inl (Exc IssApiError ''Failed to retrieve ISS position.'')"
  using assms
  by (cases failure) (simp_all add: fetch_current_position_def REQUEST_FAILURE_MESSAGE_def)

theorem transport_failure_message_witness:
  "fetch_current_position (raises (Exc (raised_class Timeout_in_body) ''timed out'')) 15
     = Inl (Exc IssApiError ''Failed to retrieve ISS position.'')"
proof -
  have h: "raises (Exc (raised_class Timeout_in_body) ''timed out'') API_URL 15
             = Inl (Exc (raised_class Timeout_in_body) ''timed out'')"
    by (simp add: raises_def)
  have n: "Timeout_in_body \<noteq> Closed_in_body"
    by simp
  from transport_failure_message
      [of "raises (Exc (raised_class Timeout_in_body) ''timed out'')" 15 Timeout_in_body
          "''timed out''", OF h n]
  show ?thesis .
qed

text \<open>
  C3 as it is written fails for a connection that is closed before the body is
  complete: \<^verbatim>\<open>read\<close> raises \<^verbatim>\<open>http.client.IncompleteRead\<close>, which is no \<^verbatim>\<open>OSError\<close>, and the
  exception leaves \<^verbatim>\<open>fetch_current_position\<close> as it is.
\<close>

theorem cut_body_escapes:
  "fetch_current_position
     (raises (Exc (raised_class Closed_in_body) ''IncompleteRead(120 bytes read)'')) 15
     = Inl (Exc IncompleteRead ''IncompleteRead(120 bytes read)'')"
  by (simp add: fetch_current_position_def raises_def)

text \<open>
  C7.  When the body is read and is not JSON, \<^verbatim>\<open>json.loads\<close> raises \<^verbatim>\<open>JSONDecodeError\<close>, or
  \<^verbatim>\<open>UnicodeDecodeError\<close> on bytes that are no text.  Neither is a \<^verbatim>\<open>URLError\<close> or an
  \<^verbatim>\<open>OSError\<close>: the exception leaves \<^verbatim>\<open>fetch_current_position\<close> as it is, it is not an
  \<^verbatim>\<open>IssApiError\<close>, and \<^verbatim>\<open>main\<close> does not catch it either, so nothing is printed by the
  script and no result is returned.
\<close>

theorem malformed_body_propagates:
  assumes "env API_URL t = Inl exc"
    and "exc_class_of exc \<in> {JSONDecodeError, UnicodeDecodeError}"
  shows "fetch_current_position env t = Inl exc
         \<and> \<not> isinstance exc IssApiError
         \<and> report (fetch_current_position env t) output_format w = (Uncaught exc, w)"
proof -
  obtain c m where exc: "exc = Exc c m"
    by (cases exc)
  with assms(2) have caught: "\<not> isinstance exc URLError" "\<not> isinstance exc OSError"
    and api: "\<not> isinstance exc IssApiError"
    by auto
  from assms(1) caught have "fetch_current_position env t = Inl exc"
    by (simp add: fetch_current_position_def)
  with api show ?thesis
    by (simp add: report_def)
qed

theorem malformed_body_propagates_witness:
  "fetch_current_position (raises (Exc JSONDecodeError ''Expecting value'')) 15
     = Inl (Exc JSONDecodeError ''Expecting value'')
   \<and> report (fetch_current_position (raises (Exc JSONDecodeError ''Expecting value'')) 15)
        ''json'' \<lparr>stdout = [], stderr = []\<rparr>
     = (Uncaught (Exc JSONDecodeError ''Expecting value''), \<lparr>stdout = [], stderr = []\<rparr>)"
proof -
  have h: "raises (Exc JSONDecodeError ''Expecting value'') API_URL 15
             = Inl (Exc JSONDecodeError ''Expecting value'')"
    by (simp add: raises_def)
  have c: "exc_class_of (Exc JSONDecodeError ''Expecting value'')
             \<in> {JSONDecodeError, UnicodeDecodeError}"
    by simp
  from malformed_body_propagates
      [of "raises (Exc JSONDecodeError ''Expecting value'')" 15
          "Exc JSONDecodeError ''Expecting value''" "''json''" "\<lparr>stdout = [], stderr = []\<rparr>",
       OF h c]
  show ?thesis
    by blast
qed

text \<open>
  C1, as the code has it.  When the payload is a JSON object and \<^verbatim>\<open>latitude\<close> or
  \<^verbatim>\<open>longitude\<close> is missing from it, or is \<^verbatim>\<open>null\<close>, a string, an array or an object,
  \<^verbatim>\<open>fetch_current_position\<close> raises \<^verbatim>\<open>IssApiError\<close> with the message
  \<^verbatim>\<open>ISS API returned invalid latitude/longitude values\<close>.
\<close>

theorem invalid_coordinates_message:
  assumes "env API_URL t = Inr (PDict d)"
    and "no_number (map_of d ''latitude'') \<or> no_number (map_of d ''longitude'')"
  shows "fetch_current_position env t
           = Inl (Exc IssApiError ''ISS API returned invalid latitude/longitude values'')"
proof -
  from assms(2)
  have "\<not> isinstance_int_float (dict_get d ''latitude'')
        \<or> \<not> isinstance_int_float (dict_get d ''longitude'')"
    by (auto dest: no_number_guard)
  with assms(1) show ?thesis
    by (auto simp add: position_of_payload_def INVALID_COORDS_MESSAGE_def Let_def)
qed

theorem invalid_coordinates_message_witness:
  "fetch_current_position
     (replies (PDict [(''latitude'', PStr ''51.6''), (''velocity'', PInt 27000)])) 15
     = Inl (Exc IssApiError ''ISS API returned invalid latitude/longitude values'')"
proof -
  have h: "replies (PDict [(''latitude'', PStr ''51.6''), (''velocity'', PInt 27000)]) API_URL 15
             = Inr (PDict [(''latitude'', PStr ''51.6''), (''velocity'', PInt 27000)])"
    by (simp add: replies_def)
  show ?thesis
    using invalid_coordinates_message
      [of "replies (PDict [(''latitude'', PStr ''51.6''), (''velocity'', PInt 27000)])" 15
          "[(''latitude'', PStr ''51.6''), (''velocity'', PInt 27000)]", OF h]
    by simp
qed

text \<open>
  C1 as it is written fails for a boolean: \<^verbatim>\<open>isinstance(True, (int, float))\<close> holds, and
  the payload \<^verbatim>\<open>{"latitude": true, "longitude": false}\<close> gives the position
  \<open>(1.0, 0.0)\<close>.
\<close>

theorem boolean_coordinates_accepted:
  "fetch_current_position
     (replies (PDict [(''latitude'', PBool True), (''longitude'', PBool False)])) 15
     = Inr \<lparr>latitude = d1_0, longitude = d0_0\<rparr>"
  by (simp add: replies_def position_of_payload_def dict_get_simps float_of_int_def
      round_to_53_def bit_length.simps d1_0_def d0_0_def)

text \<open>
  C2, as the code has it.  When the payload is a JSON object whose \<^verbatim>\<open>latitude\<close> and
  \<^verbatim>\<open>longitude\<close> are numbers, each a float or an integer of magnitude below
  \<open>2\<^sup>1\<^sup>0\<^sup>2\<^sup>4 - 2\<^sup>9\<^sup>7\<^sup>0\<close>, \<^verbatim>\<open>fetch_current_position\<close> returns the position made of
  \<^verbatim>\<open>float(latitude)\<close> and \<^verbatim>\<open>float(longitude)\<close>: it neither raises nor fails.
\<close>

theorem numeric_coordinates_position:
  assumes "env API_URL t = Inr (PDict d)"
    and "map_of d ''latitude'' = Some a" and "map_of d ''longitude'' = Some b"
    and "number_in_range a" and "number_in_range b"
  shows "\<exists>la lo. py_float a = Inr la \<and> py_float b = Inr lo
           \<and> fetch_current_position env t = Inr \<lparr>latitude = la, longitude = lo\<rparr>"
proof -
  from assms(4) obtain la where a: "isinstance_int_float a" "py_float a = Inr la"
    by (auto dest: number_in_range_float)
  from assms(5) obtain lo where b: "isinstance_int_float b" "py_float b = Inr lo"
    by (auto dest: number_in_range_float)
  from assms(1-3) a b
  have "fetch_current_position env t = Inr \<lparr>latitude = la, longitude = lo\<rparr>"
    by (simp add: position_of_payload_def dict_get_Some)
  with a b show ?thesis by blast
qed

theorem numeric_coordinates_position_witness:
  "fetch_current_position
     (replies (PDict [(''latitude'', PFloat d51_6), (''longitude'', PInt (- 7))])) 15
     = Inr \<lparr>latitude = d51_6, longitude = Finite True 7881299347898368 (- 50)\<rparr>"
proof -
  have h: "replies (PDict [(''latitude'', PFloat d51_6), (''longitude'', PInt (- 7))]) API_URL 15
             = Inr (PDict [(''latitude'', PFloat d51_6), (''longitude'', PInt (- 7))])"
    by (simp add: replies_def)
  have seven: "float_of_int (- 7) = Inr (Finite True 7881299347898368 (- 50))"
    by (simp add: float_of_int_def round_to_53_def bit_length.simps)
  from numeric_coordinates_position
      [of "replies (PDict [(''latitude'', PFloat d51_6), (''longitude'', PInt (- 7))])" 15
          "[(''latitude'', PFloat d51_6), (''longitude'', PInt (- 7))]"
          "PFloat d51_6" "PInt (- 7)", OF h]
  show ?thesis
    by (simp add: seven)
qed

text \<open>
  C2 as it is written fails for an integer that is too large for a double: \<^verbatim>\<open>float\<close>
  raises \<^verbatim>\<open>OverflowError\<close>, which no \<^verbatim>\<open>except\<close> clause of the script takes.  The payload
  has the integer \<open>2\<^sup>1\<^sup>0\<^sup>2\<^sup>4\<close>, 309 digits, as its latitude.
\<close>

theorem huge_integer_overflows:
  "fetch_current_position
     (replies (PDict [(''latitude'', PInt (2 ^ 1024)), (''longitude'', PInt 0)])) 15
     = Inl (Exc OverflowError ''int too large to convert to float'')"
proof -
  have "float_of_int (2 ^ 1024) = Inl (Exc OverflowError ''int too large to convert to float'')"
    by (rule float_of_int_overflow) (simp del: power_numeral)
  then show ?thesis
    by (simp add: replies_def position_of_payload_def dict_get_simps del: power_numeral)
qed

text \<open>
  C6, as the code has it.  Each field of the position that a fetch returns is
  \<^verbatim>\<open>float\<close> of the value that the payload has under its key.  A float in the payload is
  returned as it is, whatever its value: out of the range of a latitude or longitude,
  infinite, or not a number.  A field is finite unless the payload has an infinite
  float or \<^verbatim>\<open>NaN\<close> under its key.  A payload with a float under each key is accepted.
\<close>

theorem position_fields_follow_payload:
  assumes "env API_URL t = Inr (PDict d)"
  shows "(map_of d ''latitude'' = Some (PFloat x) \<and> map_of d ''longitude'' = Some (PFloat y)
            \<longrightarrow> fetch_current_position env t = Inr \<lparr>latitude = x, longitude = y\<rparr>)
       \<and> (fetch_current_position env t = Inr position
            \<longrightarrow> py_float (dict_get d ''latitude'') = Inr (latitude position)
              \<and> py_float (dict_get d ''longitude'') = Inr (longitude position)
              \<and> (\<forall>z. map_of d ''latitude'' = Some (PFloat z) \<longrightarrow> latitude position = z)
              \<and> (\<forall>z. map_of d ''longitude'' = Some (PFloat z) \<longrightarrow> longitude position = z)
              \<and> (isfinite (latitude position)
                   \<longleftrightarrow> (\<forall>z. map_of d ''latitude'' = Some (PFloat z) \<longrightarrow> isfinite z))
              \<and> (isfinite (longitude position)
                   \<longleftrightarrow> (\<forall>z. map_of d ''longitude'' = Some (PFloat z) \<longrightarrow> isfinite z)))"
proof (intro conjI impI)
  assume "map_of d ''latitude'' = Some (PFloat x) \<and> map_of d ''longitude'' = Some (PFloat y)"
  with assms show "fetch_current_position env t = Inr \<lparr>latitude = x, longitude = y\<rparr>"
    by (simp add: position_of_payload_def dict_get_Some)
next
  assume "fetch_current_position env t = Inr position"
  with assms have p: "position_of_payload (PDict d) = Inr position" by simp
  note la = position_of_payload_Inr(1) [OF p] and lo = position_of_payload_Inr(2) [OF p]
  show "py_float (dict_get d ''latitude'') = Inr (latitude position)"
    by (rule la)
  show "py_float (dict_get d ''longitude'') = Inr (longitude position)"
    by (rule lo)
  show "\<forall>z. map_of d ''latitude'' = Some (PFloat z) \<longrightarrow> latitude position = z"
    using la by (auto simp add: dict_get_Some)
  show "\<forall>z. map_of d ''longitude'' = Some (PFloat z) \<longrightarrow> longitude position = z"
    using lo by (auto simp add: dict_get_Some)
  from py_float_finite [OF la]
  show "isfinite (latitude position)
          \<longleftrightarrow> (\<forall>z. map_of d ''latitude'' = Some (PFloat z) \<longrightarrow> isfinite z)"
    by (simp add: dict_get_PFloat)
  from py_float_finite [OF lo]
  show "isfinite (longitude position)
          \<longleftrightarrow> (\<forall>z. map_of d ''longitude'' = Some (PFloat z) \<longrightarrow> isfinite z)"
    by (simp add: dict_get_PFloat)
qed

theorem position_fields_follow_payload_witness:
  "fetch_current_position
     (replies (PDict [(''latitude'', PFloat (Finite False 8796093022208000 (- 43))),
                      (''longitude'', PFloat (Infinite True))])) 15
     = Inr \<lparr>latitude = Finite False 8796093022208000 (- 43), longitude = Infinite True\<rparr>
   \<and> isfinite (Finite False 8796093022208000 (- 43)) \<and> \<not> isfinite (Infinite True)"
proof -
  have h: "replies (PDict [(''latitude'', PFloat (Finite False 8796093022208000 (- 43))),
                           (''longitude'', PFloat (Infinite True))]) API_URL 15
             = Inr (PDict [(''latitude'', PFloat (Finite False 8796093022208000 (- 43))),
                           (''longitude'', PFloat (Infinite True))])"
    by (simp add: replies_def)
  from position_fields_follow_payload
      [of "replies (PDict [(''latitude'', PFloat (Finite False 8796093022208000 (- 43))),
                           (''longitude'', PFloat (Infinite True))])" 15
          "[(''latitude'', PFloat (Finite False 8796093022208000 (- 43))),
            (''longitude'', PFloat (Infinite True))]"
          "Finite False 8796093022208000 (- 43)" "Infinite True"
          "\<lparr>latitude = Finite False 8796093022208000 (- 43), longitude = Infinite True\<rparr>",
       OF h]
  show ?thesis
    by simp
qed

text \<open>
  C6 as it is written fails: \<^verbatim>\<open>json.loads\<close> reads \<^verbatim>\<open>NaN\<close> and \<^verbatim>\<open>Infinity\<close>, both are
  instances of \<^verbatim>\<open>float\<close>, and the position returned has them.
\<close>

theorem not_a_number_position:
  "fetch_current_position
     (replies (PDict [(''latitude'', PFloat NaN), (''longitude'', PFloat (Infinite False))])) 15
     = Inr \<lparr>latitude = NaN, longitude = Infinite False\<rparr>
   \<and> \<not> isfinite NaN \<and> \<not> isfinite (Infinite False)"
  by (simp add: replies_def position_of_payload_def dict_get_simps)

section \<open>The output\<close>






text \<open>
  C9.  Lines 95 to 103 of \<^verbatim>\<open>main\<close> pass one of the two payloads to \<^verbatim>\<open>_emit\<close>.  For a
  position, with any format, one line is added to standard output and standard error
  stays as it was.  For a failure with the format \<^verbatim>\<open>json\<close> it is the same.  For a failure
  with the format \<^verbatim>\<open>text\<close> one line is added to standard error, and standard output
  stays as it was: this is the one case in which standard error is written.
\<close>

theorem stderr_only_for_text_failure:
  "(\<exists>s. report (Inr position) output_format w
          = (Returned 0, w\<lparr>stdout := stdout w @ s @ [newline]\<rparr>))
   \<and> stderr (snd (report (Inr position) output_format w)) = stderr w
   \<and> (\<exists>s. report (Inl (Exc IssApiError m)) ''json'' w
          = (Returned 1, w\<lparr>stdout := stdout w @ s @ [newline]\<rparr>))
   \<and> stderr (snd (report (Inl (Exc IssApiError m)) ''json'' w)) = stderr w
   \<and> (\<exists>s. report (Inl (Exc IssApiError m)) ''text'' w
          = (Returned 1, w\<lparr>stderr := stderr w @ s @ [newline]\<rparr>))
   \<and> stdout (snd (report (Inl (Exc IssApiError m)) ''text'' w)) = stdout w"
proof (intro conjI)
  show "\<exists>s. report (Inr position) output_format w
              = (Returned 0, w\<lparr>stdout := stdout w @ s @ [newline]\<rparr>)"
    by (rule report_success_total)
  show "stderr (snd (report (Inr position) output_format w)) = stderr w"
    using report_success_total [of position output_format w] by auto
  show "\<exists>s. report (Inl (Exc IssApiError m)) ''json'' w
              = (Returned 1, w\<lparr>stdout := stdout w @ s @ [newline]\<rparr>)"
    by (rule exI) (rule report_failure_json)
  show "stderr (snd (report (Inl (Exc IssApiError m)) ''json'' w)) = stderr w"
    by (simp add: report_failure_json)
  show "\<exists>s. report (Inl (Exc IssApiError m)) ''text'' w
              = (Returned 1, w\<lparr>stderr := stderr w @ s @ [newline]\<rparr>)"
    by (rule exI) (rule report_failure_text, simp)
  show "stdout (snd (report (Inl (Exc IssApiError m)) ''text'' w)) = stdout w"
    by (simp add: report_failure_text)
qed

theorem stderr_only_for_text_failure_witness:
  "stderr (snd (report (Inr \<lparr>latitude = d51_6, longitude = dm0_1\<rparr>) ''text''
                  \<lparr>stdout = [], stderr = []\<rparr>)) = []
   \<and> stderr (snd (report (Inl (Exc IssApiError ''x'')) ''json''
                    \<lparr>stdout = [], stderr = []\<rparr>)) = []
   \<and> stdout (snd (report (Inl (Exc IssApiError ''x'')) ''text''
                    \<lparr>stdout = [], stderr = []\<rparr>)) = []"
  using stderr_only_for_text_failure
    [of "\<lparr>latitude = d51_6, longitude = dm0_1\<rparr>" "''text''" "\<lparr>stdout = [], stderr = []\<rparr>" "''x''"]
  by simp

text \<open>
  C10, as the code has it.  For every payload whose \<^verbatim>\<open>status\<close> is not the string
  \<^verbatim>\<open>success\<close>, or that has no \<^verbatim>\<open>status\<close>, \<^verbatim>\<open>_emit\<close> with a format other than \<^verbatim>\<open>json\<close>, such as
  \<^verbatim>\<open>text\<close>, never raises a lookup error.  It prints \<^verbatim>\<open>Error: Unknown error\<close> on standard
  error when the payload has no \<^verbatim>\<open>message\<close>, and otherwise \<^verbatim>\<open>Error: \<close> and the text that
  \<^verbatim>\<open>str\<close> makes of the value: a string as it is, \<^verbatim>\<open>None\<close>, \<^verbatim>\<open>True\<close> or \<^verbatim>\<open>False\<close>, the
  decimal digits of an integer of at most 4300 digits, the \<^verbatim>\<open>repr\<close> of a float.  When
  \<^verbatim>\<open>str\<close> raises, which it does with \<^verbatim>\<open>ValueError\<close> and for a longer integer only, the
  exception leaves \<^verbatim>\<open>_emit\<close> and nothing is printed.
\<close>

theorem error_text_of_message:
  assumes "dict_get payload ''status'' \<noteq> PStr ''success''"
    and "output_format \<noteq> ''json''"
  shows "(map_of payload ''message'' = None \<longrightarrow>
            emit payload output_format w
              = Inr (w\<lparr>stderr := stderr w @ ''Error: Unknown error'' @ [newline]\<rparr>))
       \<and> (\<forall>s. map_of payload ''message'' = Some (PStr s) \<longrightarrow>
            emit payload output_format w
              = Inr (w\<lparr>stderr := stderr w @ ''Error: '' @ s @ [newline]\<rparr>))
       \<and> (map_of payload ''message'' = Some PNone \<longrightarrow>
            emit payload output_format w
              = Inr (w\<lparr>stderr := stderr w @ ''Error: None'' @ [newline]\<rparr>))
       \<and> (\<forall>b. map_of payload ''message'' = Some (PBool b) \<longrightarrow>
            emit payload output_format w
              = Inr (w\<lparr>stderr := stderr w @ ''Error: '' @ (if b then ''True'' else ''False'')
                       @ [newline]\<rparr>))
       \<and> (\<forall>n. map_of payload ''message'' = Some (PInt n) \<and> \<bar>n\<bar> < 10 ^ 4300 \<longrightarrow>
            emit payload output_format w
              = Inr (w\<lparr>stderr := stderr w @ ''Error: '' @ dec_int n @ [newline]\<rparr>))
       \<and> (\<forall>x. map_of payload ''message'' = Some (PFloat x) \<longrightarrow>
            emit payload output_format w
              = Inr (w\<lparr>stderr := stderr w @ ''Error: '' @ float_repr x @ [newline]\<rparr>))
       \<and> (\<forall>v s. map_of payload ''message'' = Some v \<and> py_str v = Inr s \<longrightarrow>
            emit payload output_format w
              = Inr (w\<lparr>stderr := stderr w @ ''Error: '' @ s @ [newline]\<rparr>))
       \<and> (\<forall>exc. emit payload output_format w = Inl exc \<longrightarrow>
            exc_class_of exc = ValueError \<and> \<not> isinstance exc LookupError
            \<and> (\<exists>v. map_of payload ''message'' = Some v \<and> py_str v = Inl exc))"
proof -
  note e = emit_error_branch [OF assms, of w]
  have raised: "exc_class_of exc = ValueError \<and> \<not> isinstance exc LookupError
                \<and> (\<exists>v. map_of payload ''message'' = Some v \<and> py_str v = Inl exc)"
    if "emit payload output_format w = Inl exc" for exc
  proof (cases "map_of payload ''message''")
    case None
    with e that show ?thesis by (simp add: dict_get_default_def)
  next
    case (Some v)
    with e that have v: "py_str v = Inl exc"
      by (simp add: dict_get_default_def split: sum.splits)
    then have c: "exc_class_of exc = ValueError" by (rule py_str_raises)
    then have "\<not> isinstance exc LookupError" by (cases exc) simp
    with c v Some show ?thesis by blast
  qed
  have limit: "\<not> 10 ^ MAX_STR_DIGITS \<le> \<bar>n\<bar>" if "\<bar>n\<bar> < 10 ^ 4300" for n :: int
    using that by (simp add: MAX_STR_DIGITS_def del: power_numeral)
  show ?thesis
    using raised
    by (auto simp add: e dict_get_default_def int_text_def limit simp del: power_numeral)
qed

theorem error_text_of_message_witness:
  "emit [(''status'', PStr ''error'')] ''text'' \<lparr>stdout = [], stderr = []\<rparr>
     = Inr \<lparr>stdout = [], stderr = ''Error: Unknown error'' @ [newline]\<rparr>
   \<and> emit [(''message'', PInt (- 42))] ''text'' \<lparr>stdout = [], stderr = []\<rparr>
     = Inr \<lparr>stdout = [], stderr = ''Error: -42'' @ [newline]\<rparr>
   \<and> emit [(''status'', PStr ''failed''), (''message'', PFloat dm0_1)] ''text''
        \<lparr>stdout = [], stderr = []\<rparr>
     = Inr \<lparr>stdout = [], stderr = ''Error: -0.1'' @ [newline]\<rparr>
   \<and> emit [(''status'', PInt 0), (''message'', PList [PInt 1, PStr ''a'', PNone])] ''text''
        \<lparr>stdout = [], stderr = []\<rparr>
     = Inr \<lparr>stdout = [], stderr = ''Error: [1, '' @ [apostrophe] @ ''a'' @ [apostrophe]
                                     @ '', None]'' @ [newline]\<rparr>"
proof -
  have f: "''text'' \<noteq> ''json''"
    by simp
  have s1: "dict_get [(''status'', PStr ''error'')] ''status'' \<noteq> PStr ''success''"
    and s2: "dict_get [(''message'', PInt (- 42))] ''status'' \<noteq> PStr ''success''"
    and s3: "dict_get [(''status'', PStr ''failed''), (''message'', PFloat dm0_1)] ''status''
               \<noteq> PStr ''success''"
    and s4: "dict_get [(''status'', PInt 0), (''message'', PList [PInt 1, PStr ''a'', PNone])]
               ''status'' \<noteq> PStr ''success''"
    by (simp_all add: dict_get_simps)
  have d42: "dec_int (- 42) = ''-42''"
    by (simp add: dec_int_def dec_nat.simps)
  have "(10 :: int) ^ 2 \<le> 10 ^ 4300"
    by (rule power_increasing) simp_all
  moreover have "(10 :: int) ^ 2 = 100"
    by simp
  ultimately have big: "(100 :: int) \<le> 10 ^ 4300"
    by (simp only:)
  have small: "\<bar>- 42 :: int\<bar> < 10 ^ 4300" "\<bar>1 :: int\<bar> < 10 ^ 4300"
    using big by (simp_all del: power_numeral)
  have l: "py_str (PList [PInt 1, PStr ''a'', PNone])
             = Inr (''[1, '' @ [apostrophe] @ ''a'' @ [apostrophe] @ '', None]'')"
    using big
    by (simp add: int_text_def MAX_STR_DIGITS_def dec_int_def dec_nat.simps str_repr_def
        repr_char_def apostrophe_def double_quote_def backslash_def Let_def
        del: power_numeral)
  note t1 = error_text_of_message [OF s1 f, of "\<lparr>stdout = [], stderr = []\<rparr>",
      THEN conjunct1, rule_format]
  note t2 = error_text_of_message [OF s2 f, of "\<lparr>stdout = [], stderr = []\<rparr>",
      THEN conjunct2, THEN conjunct2, THEN conjunct2, THEN conjunct2, THEN conjunct1,
      rule_format, of "- 42"]
  note t3 = error_text_of_message [OF s3 f, of "\<lparr>stdout = [], stderr = []\<rparr>",
      THEN conjunct2, THEN conjunct2, THEN conjunct2, THEN conjunct2, THEN conjunct2,
      THEN conjunct1, rule_format, of dm0_1]
  note t4 = error_text_of_message [OF s4 f, of "\<lparr>stdout = [], stderr = []\<rparr>",
      THEN conjunct2, THEN conjunct2, THEN conjunct2, THEN conjunct2, THEN conjunct2,
      THEN conjunct2, THEN conjunct1, rule_format,
      of "PList [PInt 1, PStr ''a'', PNone]"
         "''[1, '' @ [apostrophe] @ ''a'' @ [apostrophe] @ '', None]''"]
  have p1: "map_of [(''status'', PStr ''error'')] ''message'' = None"
    by simp
  have p2: "map_of [(''message'', PInt (- 42))] ''message'' = Some (PInt (- 42))
              \<and> \<bar>- 42 :: int\<bar> < 10 ^ 4300"
    using small(1) by (simp del: power_numeral)
  have p3: "map_of [(''status'', PStr ''failed''), (''message'', PFloat dm0_1)] ''message''
              = Some (PFloat dm0_1)"
    by simp
  have p4: "map_of [(''status'', PInt 0), (''message'', PList [PInt 1, PStr ''a'', PNone])]
                ''message''
              = Some (PList [PInt 1, PStr ''a'', PNone])
            \<and> py_str (PList [PInt 1, PStr ''a'', PNone])
              = Inr (''[1, '' @ [apostrophe] @ ''a'' @ [apostrophe] @ '', None]'')"
    using l by (simp del: py_str.simps py_repr.simps)
  from t1 [OF p1] t2 [OF p2] t3 [OF p3] t4 [OF p4] show ?thesis
    by (simp add: d42 float_repr_dm0_1)
qed

text \<open>
  C10 as it is written fails for a message that is an integer of 4301 digits: the
  f-string raises \<^verbatim>\<open>ValueError\<close>, and \<^verbatim>\<open>_emit\<close> prints nothing.
\<close>

theorem long_integer_message_raises:
  "emit [(''status'', PStr ''error''), (''message'', PInt (10 ^ 4300))] ''text''
     \<lparr>stdout = [], stderr = []\<rparr>
     = Inl (Exc ValueError ''Exceeds the limit (4300 digits) for integer string conversion'')"
proof -
  have "(10 :: int) ^ MAX_STR_DIGITS \<le> \<bar>10 ^ 4300\<bar>"
    by (simp add: MAX_STR_DIGITS_def del: power_numeral)
  then show ?thesis
    by (simp add: emit_def dict_get_simps dict_get_default_def int_text_def
        del: power_numeral)
qed

section \<open>The exit status\<close>

text \<open>
  C8, as the code has it.  A run ends with status 120 when the interpreter cannot flush
  its standard streams at the end.  Otherwise the status is 0 where \<^verbatim>\<open>argparse\<close> meets
  \<^verbatim>\<open>-h\<close>, and 2 where it meets an option that it refuses or, at the end of the command
  line, has met an argument that belongs to no option.  When the command line is
  accepted the status is 0 if the fetch returns a position and \<^verbatim>\<open>print\<close> does not raise,
  and 1 otherwise: the fetch raises, whether \<^verbatim>\<open>main\<close> reports the failure or the exception
  leaves the script, or \<^verbatim>\<open>print\<close> raises.  No run that ends by itself has another status.
\<close>

theorem exit_status_of_run:
  "(flush_fails dev \<longrightarrow> run dev argv env w = 120)
   \<and> (\<not> flush_fails dev \<longrightarrow>
        (\<forall>pre rest. argv = pre @ Help_opt # rest \<and> (\<forall>y\<in>set pre. valid_option y \<or> stray y)
            \<longrightarrow> run dev argv env w = 0)
      \<and> (\<forall>pre x rest. argv = pre @ x # rest \<and> (\<forall>y\<in>set pre. valid_option y \<or> stray y)
              \<and> refused_option x
            \<longrightarrow> run dev argv env w = 2)
      \<and> ((\<forall>y\<in>set argv. valid_option y \<or> stray y) \<and> (\<exists>y\<in>set argv. stray y)
            \<longrightarrow> run dev argv env w = 2)
      \<and> ((\<forall>y\<in>set argv. valid_option y)
            \<longrightarrow> (\<exists>args. parse_args argv = Inr args
                   \<and> run dev argv env w
                       = (case fetch_current_position env (timeout args) of
                            Inl exc \<Rightarrow> 1
                          | Inr position \<Rightarrow> (if print_raises dev = None then 0 else 1))))
      \<and> (argv = [] \<longrightarrow> parse_args argv = Inr \<lparr>format = ''json'', timeout = 15\<rparr>))
   \<and> run dev argv env w \<in> {0, 1, 2, 120}"
proof (intro conjI impI allI)
  assume "flush_fails dev"
  then show "run dev argv env w = 120" by (simp add: run_def Let_def)
next
  fix pre rest
  assume f: "\<not> flush_fails dev"
    and "argv = pre @ Help_opt # rest \<and> (\<forall>y\<in>set pre. valid_option y \<or> stray y)"
  then have "parse_args argv = Inl 0" by (simp add: parse_args_help)
  from run_ended_by_argparse [OF this f] show "run dev argv env w = 0" .
next
  fix pre x rest
  assume f: "\<not> flush_fails dev"
    and "argv = pre @ x # rest \<and> (\<forall>y\<in>set pre. valid_option y \<or> stray y) \<and> refused_option x"
  then have "parse_args argv = Inl 2" by (simp add: parse_args_refused)
  from run_ended_by_argparse [OF this f] show "run dev argv env w = 2" .
next
  assume f: "\<not> flush_fails dev"
    and a: "(\<forall>y\<in>set argv. valid_option y \<or> stray y) \<and> (\<exists>y\<in>set argv. stray y)"
  from a parse_args_all_pass [of argv] have "parse_args argv = Inl 2" by auto
  from run_ended_by_argparse [OF this f] show "run dev argv env w = 2" .
next
  assume f: "\<not> flush_fails dev" and a: "\<forall>y\<in>set argv. valid_option y"
  have "\<not> (\<exists>y\<in>set argv. stray y)"
  proof
    assume "\<exists>y\<in>set argv. stray y"
    then obtain y where "y \<in> set argv" "stray y" by blast
    with a show False by (cases y) auto
  qed
  with a parse_args_all_pass [of argv] obtain args where args: "parse_args argv = Inr args"
    by auto
  from run_accepted [OF args f, of env w] args
  show "\<exists>args. parse_args argv = Inr args
          \<and> run dev argv env w
              = (case fetch_current_position env (timeout args) of
                   Inl exc \<Rightarrow> 1
                 | Inr position \<Rightarrow> (if print_raises dev = None then 0 else 1))"
    by blast
next
  assume "argv = []"
  then show "parse_args argv = Inr \<lparr>format = ''json'', timeout = 15\<rparr>"
    by (simp add: parse_args_def DEFAULT_REQUEST_TIMEOUT_def)
next
  show "run dev argv env w \<in> {0, 1, 2, 120}" by (rule run_statuses)
qed


theorem exit_status_of_run_witness:
  "run delivered [Timeout_opt (Some ''5''), Format_opt (Some ''text'')]
     (raises (Exc TimeoutError ''timed out'')) \<lparr>stdout = [], stderr = []\<rparr> = 1
   \<and> run delivered [Stray ''extra'', Help_opt, Format_opt None]
     (raises (Exc TimeoutError ''timed out'')) \<lparr>stdout = [], stderr = []\<rparr> = 0
   \<and> run delivered [Timeout_opt (Some ''5''), Timeout_opt (Some ''soon'')]
     (raises (Exc TimeoutError ''timed out'')) \<lparr>stdout = [], stderr = []\<rparr> = 2"
proof -
  have five: "py_int ''5'' = Some 5"
    by (simp add: py_int_def strip_def is_space_def is_digit_def MAX_STR_DIGITS_def)
  have soon: "py_int ''soon'' = None"
    by (simp add: py_int_def strip_def is_space_def is_digit_def MAX_STR_DIGITS_def)
  have d: "\<not> flush_fails delivered" "print_raises delivered = None"
    by (simp_all add: delivered_def)
  note t = exit_status_of_run [THEN conjunct2, THEN conjunct1, THEN mp, OF d(1)]
  have a: "\<forall>y\<in>set [Timeout_opt (Some ''5''), Format_opt (Some ''text'')]. valid_option y"
    by (simp add: five)
  from t [THEN conjunct2, THEN conjunct2, THEN conjunct2, THEN conjunct1, THEN mp, OF a,
      of "raises (Exc TimeoutError ''timed out'')" "\<lparr>stdout = [], stderr = []\<rparr>"] d(2)
  have 1: "run delivered [Timeout_opt (Some ''5''), Format_opt (Some ''text'')]
     (raises (Exc TimeoutError ''timed out'')) \<lparr>stdout = [], stderr = []\<rparr> = 1"
    by (auto simp add: fetch_current_position_def raises_def)
  have h: "[Stray ''extra'', Help_opt, Format_opt None] = [Stray ''extra''] @ Help_opt # [Format_opt None]
             \<and> (\<forall>y\<in>set [Stray ''extra'']. valid_option y \<or> stray y)"
    by simp
  note 2 = t [THEN conjunct1, THEN spec, THEN spec, THEN mp, OF h,
      of "raises (Exc TimeoutError ''timed out'')" "\<lparr>stdout = [], stderr = []\<rparr>"]
  have r: "[Timeout_opt (Some ''5''), Timeout_opt (Some ''soon'')]
             = [Timeout_opt (Some ''5'')] @ Timeout_opt (Some ''soon'') # []
           \<and> (\<forall>y\<in>set [Timeout_opt (Some ''5'')]. valid_option y \<or> stray y)
           \<and> refused_option (Timeout_opt (Some ''soon''))"
    by (simp add: five soon refused_option_def)
  note 3 = t [THEN conjunct2, THEN conjunct1, THEN spec, THEN spec, THEN spec, THEN mp, OF r,
      of "raises (Exc TimeoutError ''timed out'')" "\<lparr>stdout = [], stderr = []\<rparr>"]
  from 1 2 3 show ?thesis
    by blast
qed

text \<open>
  C8 as it is written fails: \<^verbatim>\<open>--format xml\<close> is not one of the choices, and the run
  ends with status 2 before any request is made; and a run whose output stays in a
  buffer that cannot be flushed ends with status 120, also when the fetch succeeds.
\<close>

theorem other_exit_statuses:
  "run delivered [Format_opt (Some ''xml'')]
     (replies (PDict [(''latitude'', PFloat d51_6), (''longitude'', PFloat dm0_1)]))
     \<lparr>stdout = [], stderr = []\<rparr> = 2
   \<and> run \<lparr>print_raises = None, flush_fails = True\<rparr> []
     (replies (PDict [(''latitude'', PFloat d51_6), (''longitude'', PFloat dm0_1)]))
     \<lparr>stdout = [], stderr = []\<rparr> = 120"
  by (simp add: run_def main_def parse_args_def delivered_def Let_def)

end
